theory Spec2Isabelle
  imports Main "HOL-Library.AList" "HOL-Library.Sublist"
begin

section \<open>Talk with your DB: the schema explorer, the agent bridge and the chat page\<close>

text \<open>
  The program is one Python module, \<^verbatim>\<open>talk_with_db_app.py\<close>, with four functions:
  \<^verbatim>\<open>explore_database\<close>, \<^verbatim>\<open>preview_table\<close>, \<^verbatim>\<open>get_agent_response\<close> and the page
  script \<^verbatim>\<open>main\<close>. They call three collaborators that are not part of the module:
  the SQLite library, the agent library with the hosted model behind it, and the page
  framework with its per-session state. Each collaborator is made explicit below:
  a database file is a value, the agent is a function of the world the program runs in,
  and the page framework is a list of emitted events plus a record for the session.

  Python's \<^verbatim>\<open>str\<close> is modelled as \<open>string\<close>, a list of bytes; text beyond ASCII stands for
  its UTF-8 encoding.
\<close>

subsection \<open>Exceptions\<close>

text \<open>
  Every exception is an instance of a subclass of Python's \<^verbatim>\<open>Exception\<close>, so that
  \<^verbatim>\<open>except Exception\<close> catches each of them. The argument is the message, which is
  what \<^verbatim>\<open>str(e)\<close> returns. \<open>AgentError\<close> stands for whatever the agent library, the
  model client or the network raises inside \<^verbatim>\<open>agent.run\<close>.
\<close>

datatype exn =
    DatabaseError string
  | OperationalError string
  | PandasDatabaseError string
  | IntegrityError string
  | TypeError string
  | AttributeError string
  | AgentError string

fun str_exn :: "exn \<Rightarrow> string" where
  "str_exn (DatabaseError m) = m"
| "str_exn (OperationalError m) = m"
| "str_exn (PandasDatabaseError m) = m"
| "str_exn (IntegrityError m) = m"
| "str_exn (TypeError m) = m"
| "str_exn (AttributeError m) = m"
| "str_exn (AgentError m) = m"

subsection \<open>Decimal rendering of integers\<close>

definition digit_char :: "nat \<Rightarrow> char" where
  "digit_char d = ''0123456789'' ! (d mod 10)"

function str_nat :: "nat \<Rightarrow> string" where
  "str_nat n = (if n < 10 then [digit_char n] else str_nat (n div 10) @ [digit_char (n mod 10)])"
  by pat_completeness auto
termination
  by (relation "measure id") auto

declare str_nat.simps [simp del]

definition str_int :: "int \<Rightarrow> string" where
  "str_int i = (if i < 0 then CHR ''-'' # str_nat (nat (- i)) else str_nat (nat i))"

subsection \<open>The uploaded database file\<close>

text \<open>
  A file is not a SQLite database at all (\<open>NotADatabase\<close>: the first statement
  raises "file is not a database"), or it is one that SQLite cannot use (\<open>Unusable\<close>:
  the header or the schema is damaged, and every statement raises the exception given,
  for instance "malformed database schema (...)"), or it is a database whose schema
  loads (\<open>Database\<close>). A database is seen through its catalog,
  the rows of \<^verbatim>\<open>sqlite_master\<close> in order. An entry of type table carries its declared
  columns and what is stored for it:
  \<^item> \<open>Rows\<close>: the rows, in the order a scan returns them;
  \<^item> \<open>RootDamaged\<close>: the root page of the table's b-tree is not a b-tree page, so a
    scan of the table fails. With \<open>Some n\<close> the table has an index that SQLite counts
    the rows from, and the index has \<open>n\<close> entries; with \<open>None\<close> it has no index;
  \<^item> \<open>MissingModule\<close>: the table is a virtual table whose module the library does
    not have, so every statement that names the table fails.
  A generated column is a column that \<^verbatim>\<open>PRAGMA table_info\<close> leaves out and
  \<^verbatim>\<open>SELECT *\<close> returns. Names are UTF-8 texts. Floating-point cells and the hidden
  columns of virtual tables are left out of the model.
\<close>

datatype sql_value = SqlNull | SqlInteger int | SqlText string | SqlBlob string

record column =
  col_name :: string
  col_type :: string
  col_notnull :: bool
  col_default :: "string option"
  col_pk :: nat
  col_generated :: bool

datatype obj_type = TableObj | IndexObj | ViewObj | TriggerObj

datatype storage =
    Rows "sql_value list list"
  | RootDamaged "nat option"
  | MissingModule string

record entry =
  obj_type :: obj_type
  obj_name :: string
  obj_columns :: "column list"
  obj_storage :: storage

text \<open>
  A row of \<^verbatim>\<open>PRAGMA table_info\<close> is the tuple (cid, name, type, notnull, dflt_value, pk);
  a data frame is the column names and the rows.
\<close>

type_synonym column_info = "int \<times> string \<times> string \<times> int \<times> string option \<times> int"

type_synonym dataframe = "string list \<times> sql_value list list"

text \<open>
  The module substitutes the table name into the text of its statements:
  \<^verbatim>\<open>f"PRAGMA table_info({table_name})"\<close>, \<^verbatim>\<open>f"SELECT COUNT(*) FROM {table_name}"\<close>,
  \<^verbatim>\<open>f"SELECT * FROM {table_name} LIMIT {limit}"\<close>. What such a statement means is for
  SQLite's tokenizer and parser to say, and the substituted text can be anything. The
  model interprets the substituted texts whose reading it states below (a single name
  that is the name of a table of the catalog, and two forms of syntax error). For every
  other text (an alias, a join, a comment, a number, a name of a view, a name that no
  entry has and that the library may answer from tables of its own) the answer of
  SQLite is a component of the database value, indexed by the substituted text:
  \<open>other_info\<close> for \<^verbatim>\<open>PRAGMA table_info\<close>, \<open>other_count\<close> for \<^verbatim>\<open>SELECT COUNT(*)\<close> and
  \<open>other_select\<close> for \<^verbatim>\<open>SELECT * ... LIMIT\<close>. Nothing is said about these answers.
\<close>

record database =
  catalog :: "entry list"
  other_info :: "string \<Rightarrow> exn + column_info list"
  other_count :: "string \<Rightarrow> exn + int"
  other_select :: "string \<Rightarrow> int \<Rightarrow> exn + dataframe"

datatype db_file = NotADatabase | Unusable exn | Database database

text \<open>
  The files on disk, by path. \<^verbatim>\<open>sqlite3.connect\<close> opens a missing or empty file as an
  empty database.
\<close>

type_synonym filesystem = "string \<Rightarrow> db_file"

subsection \<open>How SQLite reads a name substituted into a statement\<close>

text \<open>
  A word is a text of ASCII letters, digits, \<open>_\<close> and \<open>$\<close> that starts with a letter or
  \<open>_\<close>. SQLite reads a word as one token: as a keyword when it is one, as a name
  otherwise. \<open>refused_keywords\<close> are the keywords that SQLite 3.46 does not accept where
  it expects the name of a table; its other keywords (\<^verbatim>\<open>key\<close>, \<^verbatim>\<open>temp\<close>, \<^verbatim>\<open>action\<close>, ...)
  it reads as names there. Keywords and names are compared without regard to ASCII case.
\<close>

definition upper_char :: "char \<Rightarrow> char" where
  "upper_char c =
     (case map_of (zip ''abcdefghijklmnopqrstuvwxyz'' ''ABCDEFGHIJKLMNOPQRSTUVWXYZ'') c of
        None \<Rightarrow> c
      | Some u \<Rightarrow> u)"

definition upper :: "string \<Rightarrow> string" where
  "upper s = map upper_char s"

definition word_start :: "char \<Rightarrow> bool" where
  "word_start c \<longleftrightarrow> c \<in> set ''abcdefghijklmnopqrstuvwxyzABCDEFGHIJKLMNOPQRSTUVWXYZ_''"

definition word_char :: "char \<Rightarrow> bool" where
  "word_char c \<longleftrightarrow> word_start c \<or> c \<in> set ''0123456789$''"

definition word :: "string \<Rightarrow> bool" where
  "word s \<longleftrightarrow> (case s of [] \<Rightarrow> False | c # cs \<Rightarrow> word_start c \<and> list_all word_char cs)"

definition refused_keywords :: "string list" where
  "refused_keywords =
    [''ADD'', ''ALL'', ''ALTER'', ''AND'', ''AS'', ''AUTOINCREMENT'', ''BETWEEN'', ''CASE'',
     ''CHECK'', ''COLLATE'', ''COMMIT'', ''CONSTRAINT'', ''CREATE'', ''DEFAULT'',
     ''DEFERRABLE'', ''DELETE'', ''DISTINCT'', ''DROP'', ''ELSE'', ''ESCAPE'', ''EXCEPT'',
     ''EXISTS'', ''FOREIGN'', ''FROM'', ''GROUP'', ''HAVING'', ''IN'', ''INDEX'', ''INSERT'',
     ''INTERSECT'', ''INTO'', ''IS'', ''ISNULL'', ''JOIN'', ''LIMIT'', ''NOT'', ''NOTHING'',
     ''NOTNULL'', ''NULL'', ''ON'', ''OR'', ''ORDER'', ''PRIMARY'', ''REFERENCES'',
     ''RETURNING'', ''SELECT'', ''SET'', ''TABLE'', ''THEN'', ''TO'', ''TRANSACTION'',
     ''UNION'', ''UNIQUE'', ''UPDATE'', ''USING'', ''VALUES'', ''WHEN'', ''WHERE'']"

definition refused :: "string \<Rightarrow> bool" where
  "refused w \<longleftrightarrow> upper w \<in> set refused_keywords"

text \<open>
  Three of the refused keywords are accepted as the argument of a pragma, though not as
  the name of a table in a \<^verbatim>\<open>FROM\<close> clause.
\<close>

definition pragma_keyword :: "string \<Rightarrow> bool" where
  "pragma_keyword w \<longleftrightarrow> upper w \<in> set [''ON'', ''DELETE'', ''DEFAULT'']"

text \<open>
  \<open>unquote q rest\<close> reads the text after an opening quote \<open>q\<close>: a doubled quote stands
  for one, and the closing quote has to be the last character.
\<close>

fun unquote :: "char \<Rightarrow> string \<Rightarrow> string option" where
  "unquote q [] = None"
| "unquote q [c] = (if c = q then Some [] else None)"
| "unquote q (c # d # cs) =
     (if c = q then (if d = q then map_option ((#) q) (unquote q cs) else None)
      else map_option ((#) c) (unquote q (d # cs)))"

text \<open>
  \<open>name_token\<close> gives the name that a substituted text denotes when the text is exactly
  one name token:
  \<^item> a word that is not a refused keyword denotes itself;
  \<^item> a text in double quotes, single quotes or backticks denotes its inside;
  \<^item> a text in square brackets that has no closing bracket inside denotes its inside.
  A text with a NUL character is not interpreted (the Python driver refuses it).
\<close>

definition name_token :: "string \<Rightarrow> string option" where
  "name_token text =
     (if CHR 0x00 \<in> set text then None
      else
        (case text of
           [] \<Rightarrow> None
         | c # cs \<Rightarrow>
             if c = CHR 0x22 \<or> c = CHR 0x27 \<or> c = CHR 0x60 then unquote c cs
             else if c = CHR ''['' then
               (if cs \<noteq> [] \<and> last cs = CHR '']'' \<and> CHR '']'' \<notin> set (butlast cs)
                then Some (butlast cs) else None)
             else if word text \<and> \<not> refused text then Some text
             else None))"

text \<open>
  \<open>pragma_refusal\<close> gives the token at which SQLite stops with a syntax error in
  \<^verbatim>\<open>PRAGMA table_info(<text>)\<close>, for the two forms of text where the model states it:
  \<^item> a word that is a refused keyword, other than the three a pragma accepts: SQLite
    stops at the word;
  \<^item> two words with one blank between them: SQLite stops at the first word when it is
    such a keyword, and at the second word otherwise, where it expects the closing
    parenthesis.
\<close>

definition pragma_refusal :: "string \<Rightarrow> string option" where
  "pragma_refusal text =
     (if word text then
        (if refused text \<and> \<not> pragma_keyword text then Some text else None)
      else
        (let w1 = takeWhile (\<lambda>c. c \<noteq> CHR '' '') text in
         case dropWhile (\<lambda>c. c \<noteq> CHR '' '') text of
           [] \<Rightarrow> None
         | blank # w2 \<Rightarrow>
             if word w1 \<and> word w2
             then Some (if refused w1 \<and> \<not> pragma_keyword w1 then w1 else w2)
             else None))"

text \<open>The tables of the catalog, by name.\<close>

definition find_table :: "entry list \<Rightarrow> string \<Rightarrow> entry option" where
  "find_table entries n =
     find (\<lambda>e. obj_type e = TableObj \<and> upper (obj_name e) = upper n) entries"

subsection \<open>The statements the module executes\<close>

definition info_row :: "nat \<times> column \<Rightarrow> column_info" where
  "info_row ic =
     (int (fst ic), col_name (snd ic), col_type (snd ic),
      (if col_notnull (snd ic) then 1 else 0), col_default (snd ic), int (col_pk (snd ic)))"

definition table_info_rows :: "entry \<Rightarrow> column_info list" where
  "table_info_rows e =
     map info_row (enumerate 0 (filter (\<lambda>c. \<not> col_generated c) (obj_columns e)))"

definition syntax_error :: "string \<Rightarrow> exn" where
  "syntax_error token =
     OperationalError (''near '' @ [CHR 0x22] @ token @ [CHR 0x22] @ '': syntax error'')"

definition not_a_database :: exn where
  "not_a_database = DatabaseError ''file is not a database''"

definition malformed :: exn where
  "malformed = DatabaseError ''database disk image is malformed''"

definition no_such_module :: "string \<Rightarrow> exn" where
  "no_such_module m = OperationalError (''no such module: '' @ m)"

definition datatype_mismatch :: exn where
  "datatype_mismatch = IntegrityError ''datatype mismatch''"

text \<open>\<^verbatim>\<open>SELECT name FROM sqlite_master WHERE type='table';\<close>\<close>

definition select_table_names :: "entry list \<Rightarrow> string list" where
  "select_table_names entries = map obj_name (filter (\<lambda>e. obj_type e = TableObj) entries)"

text \<open>\<^verbatim>\<open>PRAGMA table_info(<text>)\<close>\<close>

definition pragma_table_info :: "database \<Rightarrow> string \<Rightarrow> exn + column_info list" where
  "pragma_table_info db text =
     (case pragma_refusal text of
        Some token \<Rightarrow> Inl (syntax_error token)
      | None \<Rightarrow>
          (case name_token text of
             None \<Rightarrow> other_info db text
           | Some n \<Rightarrow>
               (case find_table (catalog db) n of
                  None \<Rightarrow> other_info db text
                | Some e \<Rightarrow>
                    (case obj_storage e of
                       MissingModule m \<Rightarrow> Inl (no_such_module m)
                     | Rows rs \<Rightarrow> Inr (table_info_rows e)
                     | RootDamaged index \<Rightarrow> Inr (table_info_rows e)))))"

text \<open>
  \<^verbatim>\<open>SELECT COUNT(*) FROM <text>\<close>: SQLite counts from the index when the table has one it
  can count from, and scans the table otherwise.
\<close>

definition select_count :: "database \<Rightarrow> string \<Rightarrow> exn + int" where
  "select_count db text =
     (case name_token text of
        None \<Rightarrow> other_count db text
      | Some n \<Rightarrow>
          (case find_table (catalog db) n of
             None \<Rightarrow> other_count db text
           | Some e \<Rightarrow>
               (case obj_storage e of
                  MissingModule m \<Rightarrow> Inl (no_such_module m)
                | Rows rs \<Rightarrow> Inr (int (length rs))
                | RootDamaged None \<Rightarrow> Inl malformed
                | RootDamaged (Some entries) \<Rightarrow> Inr (int entries))))"

text \<open>
  \<^verbatim>\<open>SELECT * FROM <text> LIMIT <limit>\<close>, where the limit is written in decimal. A limit
  outside the signed 64-bit range is a datatype mismatch; a negative limit is no limit;
  with the limit 0 the table is not scanned.
\<close>

definition int64 :: "int \<Rightarrow> bool" where
  "int64 k \<longleftrightarrow> - (2 ^ 63) \<le> k \<and> k < 2 ^ 63"

definition select_limit :: "database \<Rightarrow> string \<Rightarrow> int \<Rightarrow> exn + dataframe" where
  "select_limit db text limit =
     (case name_token text of
        None \<Rightarrow> other_select db text limit
      | Some n \<Rightarrow>
          (case find_table (catalog db) n of
             None \<Rightarrow> other_select db text limit
           | Some e \<Rightarrow>
               (case obj_storage e of
                  MissingModule m \<Rightarrow> Inl (no_such_module m)
                | Rows rs \<Rightarrow>
                    if int64 limit
                    then Inr (map col_name (obj_columns e),
                              if limit < 0 then rs else take (nat limit) rs)
                    else Inl datatype_mismatch
                | RootDamaged index \<Rightarrow>
                    if \<not> int64 limit then Inl datatype_mismatch
                    else if limit = 0 then Inr (map col_name (obj_columns e), [])
                    else Inl malformed)))"

subsection \<open>\<^verbatim>\<open>explore_database\<close>\<close>

text \<open>
  The result is a Python dict from table name to \<^verbatim>\<open>{'columns': ..., 'row_count': ...}\<close>.
  A dict keeps its keys in insertion order and an assignment to a key it has replaces the
  value in place: an association list under \<open>AList.update\<close>.
\<close>

record descriptor =
  columns :: "column_info list"
  row_count :: int

type_synonym table_info = "(string \<times> descriptor) list"

text \<open>The loop \<^verbatim>\<open>for table in tables\<close>; the first statement that raises ends the call.\<close>

fun explore_tables :: "database \<Rightarrow> string list \<Rightarrow> table_info \<Rightarrow> exn + table_info" where
  "explore_tables db [] table_info = Inr table_info"
| "explore_tables db (table_name # tables) table_info =
     (case pragma_table_info db table_name of
        Inl e \<Rightarrow> Inl e
      | Inr cols \<Rightarrow>
          (case select_count db table_name of
             Inl e \<Rightarrow> Inl e
           | Inr n \<Rightarrow>
               explore_tables db tables
                 (AList.update table_name \<lparr>columns = cols, row_count = n\<rparr> table_info)))"

definition explore_database :: "filesystem \<Rightarrow> string \<Rightarrow> exn + table_info" where
  "explore_database fs db_path =
     (case fs db_path of
        NotADatabase \<Rightarrow> Inl not_a_database
      | Unusable e \<Rightarrow> Inl e
      | Database db \<Rightarrow> explore_tables db (select_table_names (catalog db)) [])"

subsection \<open>\<^verbatim>\<open>preview_table\<close>\<close>

text \<open>
  \<^verbatim>\<open>pd.read_sql_query\<close> wraps whatever the statement raises into its own
  \<^verbatim>\<open>DatabaseError\<close>, whose message quotes the statement. The argument \<open>limit_arg\<close> is
  \<open>None\<close> when the caller leaves the limit out.
\<close>

definition preview_sql :: "string \<Rightarrow> int \<Rightarrow> string" where
  "preview_sql table_name limit = ''SELECT * FROM '' @ table_name @ '' LIMIT '' @ str_int limit"

definition execution_failed :: "string \<Rightarrow> exn \<Rightarrow> exn" where
  "execution_failed sql e =
     PandasDatabaseError (''Execution failed on sql '' @ [CHR 0x27] @ sql @ [CHR 0x27] @ '': '' @ str_exn e)"

definition preview_table :: "filesystem \<Rightarrow> string \<Rightarrow> string \<Rightarrow> int option \<Rightarrow> exn + dataframe" where
  "preview_table fs db_path table_name limit_arg =
     (let limit = (case limit_arg of None \<Rightarrow> 5 | Some k \<Rightarrow> k) in
      case fs db_path of
        NotADatabase \<Rightarrow> Inl (execution_failed (preview_sql table_name limit) not_a_database)
      | Unusable e \<Rightarrow> Inl (execution_failed (preview_sql table_name limit) e)
      | Database db \<Rightarrow>
          (case select_limit db table_name limit of
             Inl e \<Rightarrow> Inl (execution_failed (preview_sql table_name limit) e)
           | Inr df \<Rightarrow> Inr df))"

subsection \<open>The agent and its reply\<close>

text \<open>
  The arguments \<^verbatim>\<open>get_agent_response\<close> gives to \<^verbatim>\<open>Agent(...)\<close>, the tool's database URL
  among them.
\<close>

record agent_config =
  agent_name :: string
  model_id :: string
  api_key :: "string option"
  markdown :: bool
  system_message :: string
  db_url :: string
  retries :: nat
  reasoning :: bool

text \<open>
  The reply of \<^verbatim>\<open>agent.run\<close> either has a \<^verbatim>\<open>content\<close> attribute or is rendered with
  \<^verbatim>\<open>str\<close>. A content that is not a string makes \<^verbatim>\<open>ansi_escape.sub\<close> raise a
  \<^verbatim>\<open>TypeError\<close>; \<open>NonStr\<close> carries the message of that error.
\<close>

datatype reply_content = Str string | NonStr string

datatype response = WithContent reply_content | WithoutContent string

text \<open>
  The world the module runs in: the value \<^verbatim>\<open>os.getenv("GROQ_API_KEY")\<close> had when the
  module was loaded, and what a call of \<^verbatim>\<open>agent.run(query)\<close> does for an agent built
  from a given configuration. All the behaviour of the hosted model, its tools and its
  retries is inside \<open>agent_run\<close>.
\<close>

record world =
  groq_api_key :: "string option"
  agent_run :: "agent_config \<Rightarrow> string \<Rightarrow> exn + response"

subsection \<open>Cleaning the reply\<close>

text \<open>
  \<^verbatim>\<open>re.compile(r'\x1B(?:[@-Z\\-_]|\[[0-?]*[ -/]*[@-~])')\<close>. After the escape byte
  the first alternative takes one byte of \<open>@\<close>..\<open>Z\<close> or \<open>\\<close>..\<open>_\<close>; the second takes
  \<open>[\<close>, then bytes of \<open>0\<close>..\<open>?\<close>, then bytes of blank..\<open>/\<close>, then one byte of \<open>@\<close>..\<open>~\<close>.
  The three classes of the second alternative are disjoint, so the greedy match is the
  only one.
\<close>

definition in_range :: "nat \<Rightarrow> nat \<Rightarrow> char \<Rightarrow> bool" where
  "in_range lo hi c \<longleftrightarrow> lo \<le> of_char c \<and> (of_char c :: nat) \<le> hi"

definition esc_single :: "char \<Rightarrow> bool" where
  "esc_single c \<longleftrightarrow> in_range 0x40 0x5A c \<or> in_range 0x5C 0x5F c"

fun match_escape :: "string \<Rightarrow> string option" where
  "match_escape [] = None"
| "match_escape (c # cs) =
     (if esc_single c then Some cs
      else if c = CHR ''['' then
        (case dropWhile (in_range 0x20 0x2F) (dropWhile (in_range 0x30 0x3F) cs) of
           [] \<Rightarrow> None
         | f # rest \<Rightarrow> if in_range 0x40 0x7E f then Some rest else None)
      else None)"

function strip_ansi :: "string \<Rightarrow> string" where
  "strip_ansi [] = []"
| "strip_ansi (c # cs) =
     (if c = CHR 0x1B then
        (case match_escape cs of
           Some rest \<Rightarrow> strip_ansi rest
         | None \<Rightarrow> c # strip_ansi cs)
      else c # strip_ansi cs)"
  by pat_completeness auto
termination
proof (relation "measure length")
  show "wf (measure length)" by simp
next
  fix c :: char and cs rest :: string
  assume h: "match_escape cs = Some rest"
  have "length rest \<le> length cs"
  proof (cases cs)
    case Nil
    with h show ?thesis by simp
  next
    case (Cons d ds)
    show ?thesis
    proof (cases "esc_single d")
      case True
      with h Cons show ?thesis by simp
    next
      case False
      with h Cons obtain f where
        dw: "dropWhile (in_range 0x20 0x2F) (dropWhile (in_range 0x30 0x3F) ds) = f # rest"
        by (auto split: if_splits list.splits)
      have "length (f # rest) \<le> length (dropWhile (in_range 0x30 0x3F) ds)"
        unfolding dw [symmetric] by (rule length_dropWhile_le)
      also have "\<dots> \<le> length ds"
        by (rule length_dropWhile_le)
      finally show ?thesis using Cons by simp
    qed
  qed
  then show "(rest, c # cs) \<in> measure length" by simp
qed simp_all

text \<open>
  \<^verbatim>\<open>str.strip()\<close> removes the characters for which \<^verbatim>\<open>str.isspace\<close> holds, here in
  their UTF-8 encoding.
\<close>

definition whitespace :: "string list" where
  "whitespace =
    [[CHR 0x09], [CHR 0x0A], [CHR 0x0B], [CHR 0x0C], [CHR 0x0D],
     [CHR 0x1C], [CHR 0x1D], [CHR 0x1E], [CHR 0x1F], [CHR 0x20],
     [CHR 0xC2, CHR 0x85], [CHR 0xC2, CHR 0xA0], [CHR 0xE1, CHR 0x9A, CHR 0x80],
     [CHR 0xE2, CHR 0x80, CHR 0x80], [CHR 0xE2, CHR 0x80, CHR 0x81],
     [CHR 0xE2, CHR 0x80, CHR 0x82], [CHR 0xE2, CHR 0x80, CHR 0x83],
     [CHR 0xE2, CHR 0x80, CHR 0x84], [CHR 0xE2, CHR 0x80, CHR 0x85],
     [CHR 0xE2, CHR 0x80, CHR 0x86], [CHR 0xE2, CHR 0x80, CHR 0x87],
     [CHR 0xE2, CHR 0x80, CHR 0x88], [CHR 0xE2, CHR 0x80, CHR 0x89],
     [CHR 0xE2, CHR 0x80, CHR 0x8A], [CHR 0xE2, CHR 0x80, CHR 0xA8],
     [CHR 0xE2, CHR 0x80, CHR 0xA9], [CHR 0xE2, CHR 0x80, CHR 0xAF],
     [CHR 0xE2, CHR 0x81, CHR 0x9F], [CHR 0xE3, CHR 0x80, CHR 0x80]]"

definition leading_space :: "string \<Rightarrow> nat" where
  "leading_space s = (case find (\<lambda>w. prefix w s) whitespace of None \<Rightarrow> 0 | Some w \<Rightarrow> length w)"

definition trailing_space :: "string \<Rightarrow> nat" where
  "trailing_space s = (case find (\<lambda>w. suffix w s) whitespace of None \<Rightarrow> 0 | Some w \<Rightarrow> length w)"

function lstrip :: "string \<Rightarrow> string" where
  "lstrip s = (if leading_space s = 0 then s else lstrip (drop (leading_space s) s))"
  by pat_completeness auto
termination
proof (relation "measure length")
  show "wf (measure length)" by simp
next
  fix s :: string
  assume "leading_space s \<noteq> 0"
  moreover have "leading_space s \<le> length s"
    by (auto simp: leading_space_def find_Some_iff prefix_def split: option.splits)
  ultimately show "(drop (leading_space s) s, s) \<in> measure length" by simp
qed

function rstrip :: "string \<Rightarrow> string" where
  "rstrip s =
     (if trailing_space s = 0 then s else rstrip (take (length s - trailing_space s) s))"
  by pat_completeness auto
termination
proof (relation "measure length")
  show "wf (measure length)" by simp
next
  fix s :: string
  assume "trailing_space s \<noteq> 0"
  moreover have "trailing_space s \<le> length s"
    by (auto simp: trailing_space_def find_Some_iff suffix_def split: option.splits)
  ultimately show "(take (length s - trailing_space s) s, s) \<in> measure length" by simp
qed

declare lstrip.simps [simp del] rstrip.simps [simp del]

definition strip :: "string \<Rightarrow> string" where
  "strip s = rstrip (lstrip s)"

text \<open>The body of the \<^verbatim>\<open>try\<close> after \<^verbatim>\<open>agent.run\<close> has returned.\<close>

definition clean_response :: "response \<Rightarrow> exn + string" where
  "clean_response r =
     (case (case r of WithContent c \<Rightarrow> c | WithoutContent s \<Rightarrow> Str s) of
        NonStr m \<Rightarrow> Inl (TypeError m)
      | Str s \<Rightarrow> Inr (strip (strip_ansi s)))"

subsection \<open>\<^verbatim>\<open>get_agent_response\<close>\<close>

fun join :: "string \<Rightarrow> string list \<Rightarrow> string" where
  "join sep [] = []"
| "join sep [x] = x"
| "join sep (x # y # ys) = x @ sep @ join sep (y # ys)"

definition prompt_head :: "string list \<Rightarrow> string" where
  "prompt_head table_names =
     ''\<newline>    You are a helpful assistant that translates natural language to SQL queries for a SQLite database.''
     @ ''\<newline>    ''
     @ ''\<newline>    IMPORTANT DATABASE CONTEXT:''
     @ ''\<newline>    Available tables: '' @ join '', '' table_names
     @ ''\<newline>    ''
     @ ''\<newline>    Table details:''
     @ ''\<newline>    ''"

definition table_line :: "string \<times> descriptor \<Rightarrow> string" where
  "table_line item =
     ''\<newline>- '' @ fst item @ '': columns = ''
     @ join '', '' (map (\<lambda>col. fst (snd col)) (columns (snd item)))"

definition rule_exact :: string where
  "rule_exact = ''- Use the EXACT table names and column names as provided above''"

definition rule_limit :: string where
  "rule_limit =
     ''- Do not include any `limit` parameter when calling tools unless explicitly requested by the user''"

definition rule_numeric :: string where
  "rule_numeric = ''- Always return numeric values (not strings) for tool parameters''"

definition rule_confirm :: string where
  "rule_confirm = ''- First use list_tables() to confirm available tables if unsure''"

definition rule_clear :: string where
  "rule_clear = ''- Provide clear, well-formatted responses with explanations when appropriate''"

definition prompt_rules :: string where
  "prompt_rules =
     ''\<newline>    ''
     @ ''\<newline>    IMPORTANT RULES:''
     @ ''\<newline>    '' @ rule_exact
     @ ''\<newline>    '' @ rule_limit
     @ ''\<newline>    '' @ rule_numeric
     @ ''\<newline>    '' @ rule_confirm
     @ ''\<newline>    '' @ rule_clear
     @ ''\<newline>    ''"

text \<open>The f-string, the loop \<^verbatim>\<open>system_message += ...\<close> over the items, and the rules.\<close>

definition compose_system_message :: "table_info \<Rightarrow> string" where
  "compose_system_message table_info =
     foldl (\<lambda>msg item. msg @ table_line item) (prompt_head (map fst table_info)) table_info
     @ prompt_rules"

definition make_agent :: "world \<Rightarrow> string \<Rightarrow> table_info \<Rightarrow> agent_config" where
  "make_agent w db_path table_info =
     \<lparr>agent_name = ''SQLite Agent'',
      model_id = ''qwen/qwen3-32b'',
      api_key = groq_api_key w,
      markdown = True,
      system_message = compose_system_message table_info,
      db_url = ''sqlite:///'' @ db_path,
      retries = 3,
      reasoning = False\<rparr>"

text \<open>The body of the \<^verbatim>\<open>try\<close>: the call of the agent and the cleaning of its reply.\<close>

definition run_agent :: "world \<Rightarrow> agent_config \<Rightarrow> string \<Rightarrow> exn + string" where
  "run_agent w agent query =
     (case agent_run w agent query of
        Inl e \<Rightarrow> Inl e
      | Inr r \<Rightarrow> clean_response r)"

text \<open>
  The first component lists the calls of \<^verbatim>\<open>agent.run\<close> that were made, the second is
  what the function returns or raises. \<^verbatim>\<open>explore_database\<close> is called before the
  \<^verbatim>\<open>try\<close>.
\<close>

definition get_agent_response ::
  "world \<Rightarrow> filesystem \<Rightarrow> string \<Rightarrow> string \<Rightarrow> (agent_config \<times> string) list \<times> (exn + string)" where
  "get_agent_response w fs query db_path =
     (case explore_database fs db_path of
        Inl e \<Rightarrow> ([], Inl e)
      | Inr table_info \<Rightarrow>
          (let agent = make_agent w db_path table_info in
           ([(agent, query)],
            (case run_agent w agent query of
               Inr clean \<Rightarrow> Inr clean
             | Inl e \<Rightarrow> Inr (''Error processing query: '' @ str_exn e)))))"

subsection \<open>The session and a run of the page script\<close>

text \<open>
  \<^verbatim>\<open>st.session_state\<close> holds three keys; \<open>None\<close> is a key that is not set. A chat turn
  is the dict \<^verbatim>\<open>{"role": ..., "content": ...}\<close>.
\<close>

record message =
  role :: string
  content :: string

record session =
  db_path :: "string option"
  db_name :: "string option"
  messages :: "message list option"

record app_state =
  session :: session
  files :: filesystem

text \<open>
  What the widgets return in one run of the script: the uploaded file (its name and its
  bytes), the name \<^verbatim>\<open>tempfile.NamedTemporaryFile\<close> picks, the tables whose preview button
  was pressed, the submitted question, and whether the clear button was pressed.
\<close>

record inputs =
  uploaded_file :: "(string \<times> db_file) option"
  tmp_name :: string
  preview_clicked :: "string list"
  chat_input :: "string option"
  clear_clicked :: bool

text \<open>
  What a run shows and does, in order. Calls that only print fixed text (the title, the
  headers, the captions, the spinner, the welcome text) are left out. \<open>StExpander\<close>
  carries the label and the rows of the column table (name, type, not null, primary key).
\<close>

datatype event =
    StSuccess string
  | StError string
  | StInfo string
  | StWarning string
  | StCode string
  | StMarkdown string
  | StChatMessage string
  | StExpander string "(string \<times> string \<times> int \<times> int) list"
  | StDataframe dataframe
  | AgentRun agent_config string
  | StRerun

definition check_mark :: string where
  "check_mark = [CHR 0xE2, CHR 0x9C, CHR 0x85]"

definition cross_mark :: string where
  "cross_mark = [CHR 0xE2, CHR 0x9D, CHR 0x8C]"

definition bar_chart :: string where
  "bar_chart = [CHR 0xF0, CHR 0x9F, CHR 0x93, CHR 0x8A]"

definition warning_sign :: string where
  "warning_sign = [CHR 0xE2, CHR 0x9A, CHR 0xA0, CHR 0xEF, CHR 0xB8, CHR 0x8F]"

text \<open>\<^verbatim>\<open>not groq_api_key\<close>: the variable is unset or empty.\<close>

definition key_absent :: "world \<Rightarrow> bool" where
  "key_absent w \<longleftrightarrow> groq_api_key w = None \<or> groq_api_key w = Some []"

definition history :: "session \<Rightarrow> message list" where
  "history s = (case messages s of None \<Rightarrow> [] | Some ms \<Rightarrow> ms)"

definition user_turn :: "string \<Rightarrow> message" where
  "user_turn text = \<lparr>role = ''user'', content = text\<rparr>"

definition assistant_turn :: "string \<Rightarrow> message" where
  "assistant_turn text = \<lparr>role = ''assistant'', content = text\<rparr>"

subsubsection \<open>The sidebar\<close>

definition expander_label :: "string \<Rightarrow> descriptor \<Rightarrow> string" where
  "expander_label table_name info =
     bar_chart @ '' '' @ table_name @ '' ('' @ str_int (row_count info) @ '' rows)''"

definition col_df :: "descriptor \<Rightarrow> (string \<times> string \<times> int \<times> int) list" where
  "col_df info =
     map (\<lambda>(cid, name, type, notnull, dflt, pk). (name, type, notnull, pk)) (columns info)"

text \<open>
  The loop over \<^verbatim>\<open>table_info.items()\<close> inside the \<^verbatim>\<open>try\<close>: the events shown, and the
  exception that ended the loop, if one did.
\<close>

fun show_tables ::
  "filesystem \<Rightarrow> string list \<Rightarrow> string \<Rightarrow> table_info \<Rightarrow> event list \<times> exn option" where
  "show_tables fs clicked path [] = ([], None)"
| "show_tables fs clicked path ((table_name, info) # items) =
     (let shown = [StExpander (expander_label table_name info) (col_df info)] in
      if table_name \<in> set clicked then
        (case preview_table fs path table_name None of
           Inl e \<Rightarrow> (shown, Some e)
         | Inr preview_df \<Rightarrow>
             (case show_tables fs clicked path items of
                (evs, r) \<Rightarrow> (shown @ [StDataframe preview_df] @ evs, r)))
      else
        (case show_tables fs clicked path items of
           (evs, r) \<Rightarrow> (shown @ evs, r)))"

definition loaded_message :: "string \<Rightarrow> string" where
  "loaded_message name =
     check_mark @ '' Database '' @ [CHR 0x27] @ name @ [CHR 0x27] @ '' loaded successfully!''"

definition exploring_error :: "exn \<Rightarrow> event" where
  "exploring_error e = StError (''Error exploring database: '' @ str_exn e)"

definition sidebar :: "inputs \<Rightarrow> app_state \<Rightarrow> app_state \<times> event list" where
  "sidebar inp st =
     (case uploaded_file inp of
        None \<Rightarrow> (st, [])
      | Some (name, bytes) \<Rightarrow>
          (let path = tmp_name inp;
               fs = (files st)(path := bytes);
               st1 = \<lparr>session = (session st)\<lparr>db_path := Some path, db_name := Some name\<rparr>,
                      files = fs\<rparr>
           in (st1,
               StSuccess (loaded_message name) #
               (case explore_database fs path of
                  Inl e \<Rightarrow> [exploring_error e]
                | Inr table_info \<Rightarrow>
                    (case show_tables fs (preview_clicked inp) path table_info of
                       (evs, None) \<Rightarrow> evs
                     | (evs, Some e) \<Rightarrow> evs @ [exploring_error e])))))"

subsubsection \<open>A question\<close>

definition key_missing_error :: string where
  "key_missing_error =
     cross_mark @ '' GROQ_API_KEY not found. Please set your API key in the environment variables.''"

definition configure_message :: string where
  "configure_message = ''Please configure your GROQ API key to use this feature.''"

text \<open>
  The body of the outer \<^verbatim>\<open>try\<close> up to the assignment of \<^verbatim>\<open>response\<close>: the events,
  and the response or the exception that left the body.
\<close>

definition respond :: "world \<Rightarrow> filesystem \<Rightarrow> string \<Rightarrow> string \<Rightarrow> event list \<times> (exn + string)" where
  "respond w fs prompt path =
     (if key_absent w then ([StError key_missing_error], Inr configure_message)
      else
        (let tables_shown =
               (case explore_database fs path of
                  Inr table_info \<Rightarrow>
                    [StInfo (bar_chart @ '' Available tables: '' @ join '', '' (map fst table_info))]
                | Inl e \<Rightarrow> [])
         in case get_agent_response w fs prompt path of
              (calls, r) \<Rightarrow> (tables_shown @ map (\<lambda>(agent, query). AgentRun agent query) calls, r)))"

text \<open>The body of \<^verbatim>\<open>if prompt := st.chat_input(...)\<close>.\<close>

definition ask :: "world \<Rightarrow> filesystem \<Rightarrow> string \<Rightarrow> string \<Rightarrow> session \<Rightarrow> session \<times> event list" where
  "ask w fs prompt path s =
     (let asked = history s @ [user_turn prompt];
          shown = [StChatMessage ''user'', StMarkdown prompt, StChatMessage ''assistant'']
      in case respond w fs prompt path of
           (evs, Inr response) \<Rightarrow>
             (s\<lparr>messages := Some (asked @ [assistant_turn response])\<rparr>,
              shown @ evs @ [StMarkdown response])
         | (evs, Inl e) \<Rightarrow>
             (let error_msg = cross_mark @ '' Error processing query: '' @ str_exn e
              in (s\<lparr>messages := Some (asked @ [assistant_turn error_msg])\<rparr>,
                  shown @ evs @ [StError error_msg])))"

subsubsection \<open>The clear button\<close>

definition clear_history :: "session \<Rightarrow> session" where
  "clear_history s = s\<lparr>messages := Some []\<rparr>"

subsubsection \<open>\<^verbatim>\<open>main\<close>\<close>

definition welcome_page :: "world \<Rightarrow> event list" where
  "welcome_page w =
     (if key_absent w then
        [StWarning (warning_sign @ '' **GROQ_API_KEY not configured.** Please set your API key in environment variables to use AI features.''),
         StCode ''export GROQ_API_KEY=your_api_key_here'']
      else [])"

definition show_history :: "message list \<Rightarrow> event list" where
  "show_history ms = concat (map (\<lambda>m. [StChatMessage (role m), StMarkdown (content m)]) ms)"

text \<open>
  One run of the script: the state it leaves, the events, and the exception that ended
  the run, if one did. Reading \<^verbatim>\<open>st.session_state.db_name\<close> when the key is not set
  raises an \<^verbatim>\<open>AttributeError\<close>, which nothing catches; the model gives it the name of
  the key as its message.
\<close>

definition main :: "world \<Rightarrow> inputs \<Rightarrow> app_state \<Rightarrow> app_state \<times> event list \<times> exn option" where
  "main w inp st =
     (case sidebar inp st of
        (st1, side) \<Rightarrow>
          (case db_path (session st1) of
             None \<Rightarrow> (st1, side @ welcome_page w, None)
           | Some path \<Rightarrow>
               (case db_name (session st1) of
                  None \<Rightarrow> (st1, side, Some (AttributeError ''db_name''))
                | Some name \<Rightarrow>
                    (let connected = [StInfo (''Currently connected to: **'' @ name @ ''**'')];
                         s2 = (session st1)\<lparr>messages := Some (history (session st1))\<rparr>;
                         shown = show_history (history s2);
                         (s3, chat) =
                           (case chat_input inp of
                              None \<Rightarrow> (s2, [])
                            | Some prompt \<Rightarrow>
                                if prompt = [] then (s2, [])
                                else ask w (files st1) prompt path s2);
                         (s4, cleared) =
                           (if clear_clicked inp then (clear_history s3, [StRerun])
                            else (s3, []))
                     in (st1\<lparr>session := s4\<rparr>, side @ connected @ shown @ chat @ cleared, None)))))"

subsection \<open>Example databases and worlds\<close>

text \<open>
  The catalogs and databases used for the concrete statements below: the shop of the
  specification's example; a table whose name has a blank in it; a catalog with a table
  whose name is written in square brackets; the shop with a damaged table that has no
  index, and with a damaged table that has one. \<open>plain_database\<close> makes a database
  of a catalog; the answers it gives to the texts that the model does not interpret are
  those of SQLite for a word that names nothing, and no statement below consults them.
\<close>

definition plain_column :: "string \<Rightarrow> string \<Rightarrow> column" where
  "plain_column name type =
     \<lparr>col_name = name, col_type = type, col_notnull = False, col_default = None, col_pk = 0,
      col_generated = False\<rparr>"

definition plain_table :: "string \<Rightarrow> column list \<Rightarrow> sql_value list list \<Rightarrow> entry" where
  "plain_table name cols rows =
     \<lparr>obj_type = TableObj, obj_name = name, obj_columns = cols, obj_storage = Rows rows\<rparr>"

definition no_such_table :: "string \<Rightarrow> exn" where
  "no_such_table n = OperationalError (''no such table: '' @ n)"

definition plain_database :: "entry list \<Rightarrow> db_file" where
  "plain_database entries =
     Database
       \<lparr>catalog = entries,
        other_info = (\<lambda>text. Inr []),
        other_count = (\<lambda>text. Inl (no_such_table text)),
        other_select = (\<lambda>text limit. Inl (no_such_table text))\<rparr>"

definition customers :: entry where
  "customers =
     plain_table ''customers''
       [plain_column ''id'' ''INTEGER'', plain_column ''name'' ''TEXT'',
        plain_column ''country'' ''TEXT'']
       [[SqlInteger 1, SqlText ''Ada'', SqlText ''Germany''],
        [SqlInteger 2, SqlText ''Bo'', SqlText ''France''],
        [SqlInteger 3, SqlText ''Cy'', SqlText ''Germany'']]"

definition orders :: entry where
  "orders =
     plain_table ''orders''
       [plain_column ''id'' ''INTEGER'', plain_column ''customer_id'' ''INTEGER'',
        plain_column ''amount'' ''INTEGER'']
       [[SqlInteger 1, SqlInteger 1, SqlInteger 250],
        [SqlInteger 2, SqlInteger 3, SqlInteger 40]]"

definition order_details :: entry where
  "order_details =
     plain_table ''Order Details''
       [plain_column ''order_id'' ''INTEGER'', plain_column ''quantity'' ''INTEGER'']
       [[SqlInteger 1, SqlInteger 5]]"

definition shop :: db_file where
  "shop = plain_database [customers, orders]"

definition bracket_catalog :: "entry list" where
  "bracket_catalog =
     [plain_table ''t'' [plain_column ''x'' ''INTEGER''] [[SqlInteger 7]],
      plain_table ''[t]'' [plain_column ''a'' ''TEXT'', plain_column ''b'' ''TEXT''] []]"

definition damaged_catalog :: "entry list" where
  "damaged_catalog = [customers, orders\<lparr>obj_storage := RootDamaged None\<rparr>]"

definition damaged_shop :: db_file where
  "damaged_shop = plain_database damaged_catalog"

definition damaged_indexed_catalog :: "entry list" where
  "damaged_indexed_catalog = [customers, orders\<lparr>obj_storage := RootDamaged (Some 2)\<rparr>]"

definition tmp_path :: string where
  "tmp_path = ''/tmp/tmpa1b2c3.sqlite''"

definition on_disk :: "db_file \<Rightarrow> filesystem" where
  "on_disk f = (\<lambda>path. plain_database [])(tmp_path := f)"

definition shop_info :: table_info where
  "shop_info =
     [(''customers'',
       \<lparr>columns = [(0, ''id'', ''INTEGER'', 0, None, 0), (1, ''name'', ''TEXT'', 0, None, 0),
                   (2, ''country'', ''TEXT'', 0, None, 0)],
        row_count = 3\<rparr>),
      (''orders'',
       \<lparr>columns = [(0, ''id'', ''INTEGER'', 0, None, 0),
                   (1, ''customer_id'', ''INTEGER'', 0, None, 0),
                   (2, ''amount'', ''INTEGER'', 0, None, 0)],
        row_count = 2\<rparr>)]"

definition keyless_world :: world where
  "keyless_world =
     \<lparr>groq_api_key = None,
      agent_run = (\<lambda>agent query. Inr (WithContent (Str ''There are 3 customers.'')))\<rparr>"

definition offline_world :: world where
  "offline_world =
     \<lparr>groq_api_key = Some ''gsk_test'',
      agent_run = (\<lambda>agent query. Inl (AgentError ''Connection error.''))\<rparr>"

definition fresh_state :: app_state where
  "fresh_state =
     \<lparr>session = \<lparr>db_path = None, db_name = None, messages = None\<rparr>,
      files = (\<lambda>path. plain_database [])\<rparr>"

definition chatting_state :: app_state where
  "chatting_state =
     \<lparr>session =
        \<lparr>db_path = Some tmp_path, db_name = Some ''shop.sqlite'',
         messages = Some [user_turn ''How many customers?'',
                          assistant_turn ''There are 3 customers.'']\<rparr>,
      files = on_disk shop\<rparr>"

definition clear_press :: inputs where
  "clear_press =
     \<lparr>uploaded_file = None, tmp_name = ''/tmp/tmpd4e5f6.sqlite'', preview_clicked = [],
      chat_input = None, clear_clicked = True\<rparr>"

definition question :: "string \<Rightarrow> inputs" where
  "question prompt =
     \<lparr>uploaded_file = None, tmp_name = ''/tmp/tmpd4e5f6.sqlite'', preview_clicked = [],
      chat_input = Some prompt, clear_clicked = False\<rparr>"

definition upload :: "db_file \<Rightarrow> inputs" where
  "upload f =
     \<lparr>uploaded_file = Some (''shop.sqlite'', f), tmp_name = tmp_path,
      preview_clicked = [], chat_input = None, clear_clicked = False\<rparr>"

subsection \<open>Reading the events of a run\<close>

definition agent_calls :: "event list \<Rightarrow> (agent_config \<times> string) list" where
  "agent_calls evs =
     concat (map (\<lambda>ev. case ev of AgentRun agent query \<Rightarrow> [(agent, query)] | _ \<Rightarrow> []) evs)"

definition expanders :: "event list \<Rightarrow> string list" where
  "expanders evs =
     concat (map (\<lambda>ev. case ev of StExpander label rows \<Rightarrow> [label] | _ \<Rightarrow> []) evs)"

subsection \<open>Notions used in the statements\<close>

text \<open>
  A valid catalog has no two tables whose names agree up to ASCII case.
\<close>

definition valid_catalog :: "entry list \<Rightarrow> bool" where
  "valid_catalog entries \<longleftrightarrow>
     distinct (map (\<lambda>e. upper (obj_name e)) (filter (\<lambda>e. obj_type e = TableObj) entries))"

text \<open>The text of the assistant turn that \<open>ask\<close> appends, by the outcome of \<open>respond\<close>.\<close>

definition shown_reply :: "exn + string \<Rightarrow> string" where
  "shown_reply r =
     (case r of
        Inr response \<Rightarrow> response
      | Inl e \<Rightarrow> cross_mark @ '' Error processing query: '' @ str_exn e)"

text \<open>The descriptor a table should get: its own columns and the number of its own rows.\<close>

definition describe :: "entry \<Rightarrow> sql_value list list \<Rightarrow> string \<times> descriptor" where
  "describe e rs = (obj_name e, \<lparr>columns = table_info_rows e, row_count = int (length rs)\<rparr>)"

text \<open>The rows a table has, when its storage can be read.\<close>

definition stored_rows :: "entry \<Rightarrow> sql_value list list" where
  "stored_rows e = (case obj_storage e of Rows rs \<Rightarrow> rs | _ \<Rightarrow> [])"

section \<open>Properties\<close>

subsection \<open>The schema explorer\<close>

lemma word_char_plain:
  assumes "word_char c"
  shows "c \<noteq> CHR 0x00" and "c \<noteq> CHR '' ''"
  using assms by (auto simp: word_char_def word_start_def)

lemma word_start_plain:
  assumes "word_start c"
  shows "c \<noteq> CHR 0x22" and "c \<noteq> CHR 0x27" and "c \<noteq> CHR 0x60" and "c \<noteq> CHR ''[''"
    and "word_char c"
  using assms by (auto simp: word_char_def word_start_def)

lemma word_chars:
  assumes "word n"
  shows "list_all word_char n"
  using assms by (cases n) (auto simp: word_def word_start_plain(5))

lemma name_token_word:
  assumes "word n" and "\<not> refused n"
  shows "name_token n = Some n"
proof -
  have "CHR 0x00 \<notin> set n"
    using word_chars [OF assms(1)] word_char_plain(1) by (auto simp: list_all_iff)
  moreover obtain c cs where n: "n = c # cs" and c: "word_start c"
    using assms(1) by (cases n) (auto simp: word_def)
  ultimately show ?thesis
    using assms word_start_plain [OF c] by (simp add: name_token_def)
qed

lemma pragma_refusal_word:
  assumes "word n" and "\<not> refused n"
  shows "pragma_refusal n = None"
  using assms by (simp add: pragma_refusal_def)

lemma find_table_self:
  assumes "valid_catalog entries" and "e \<in> set entries" and "obj_type e = TableObj"
  shows "find_table entries (obj_name e) = Some e"
  using assms
proof (induction entries)
  case Nil
  then show ?case by simp
next
  case (Cons x xs)
  show ?case
  proof (cases "x = e")
    case True
    with Cons.prems(3) show ?thesis by (simp add: find_table_def)
  next
    case False
    with Cons.prems(2) have mem: "e \<in> set xs" by simp
    have valid: "valid_catalog xs"
      using Cons.prems(1) by (auto simp: valid_catalog_def split: if_splits)
    have rest: "find_table xs (obj_name e) = Some e"
      using Cons.IH [OF valid mem Cons.prems(3)] .
    show ?thesis
    proof (cases "obj_type x = TableObj \<and> upper (obj_name x) = upper (obj_name e)")
      case True
      have "upper (obj_name e)
            \<in> set (map (\<lambda>e. upper (obj_name e)) (filter (\<lambda>e. obj_type e = TableObj) xs))"
        using mem Cons.prems(3) by auto
      with True Cons.prems(1) have False
        by (auto simp: valid_catalog_def)
      then show ?thesis ..
    next
      case False
      with rest show ?thesis by (auto simp: find_table_def)
    qed
  qed
qed

text \<open>
  The three statements on the own name of a table, when the name is a word SQLite accepts.
\<close>

lemma statements_on_word:
  assumes "valid_catalog (catalog db)" and "e \<in> set (catalog db)" and "obj_type e = TableObj"
    and "word (obj_name e)" and "\<not> refused (obj_name e)"
  shows "pragma_table_info db (obj_name e) =
           (case obj_storage e of
              MissingModule m \<Rightarrow> Inl (no_such_module m)
            | Rows rs \<Rightarrow> Inr (table_info_rows e)
            | RootDamaged index \<Rightarrow> Inr (table_info_rows e))"
    and "select_count db (obj_name e) =
           (case obj_storage e of
              MissingModule m \<Rightarrow> Inl (no_such_module m)
            | Rows rs \<Rightarrow> Inr (int (length rs))
            | RootDamaged None \<Rightarrow> Inl malformed
            | RootDamaged (Some entries) \<Rightarrow> Inr (int entries))"
    and "select_limit db (obj_name e) limit =
           (case obj_storage e of
              MissingModule m \<Rightarrow> Inl (no_such_module m)
            | Rows rs \<Rightarrow>
                if int64 limit
                then Inr (map col_name (obj_columns e),
                          if limit < 0 then rs else take (nat limit) rs)
                else Inl datatype_mismatch
            | RootDamaged index \<Rightarrow>
                if \<not> int64 limit then Inl datatype_mismatch
                else if limit = 0 then Inr (map col_name (obj_columns e), [])
                else Inl malformed)"
proof -
  have found: "find_table (catalog db) (obj_name e) = Some e"
    using assms(1,2,3) by (rule find_table_self)
  have token: "name_token (obj_name e) = Some (obj_name e)"
    using assms(4,5) by (rule name_token_word)
  have accepted: "pragma_refusal (obj_name e) = None"
    using assms(4,5) by (rule pragma_refusal_word)
  show "pragma_table_info db (obj_name e) =
           (case obj_storage e of
              MissingModule m \<Rightarrow> Inl (no_such_module m)
            | Rows rs \<Rightarrow> Inr (table_info_rows e)
            | RootDamaged index \<Rightarrow> Inr (table_info_rows e))"
    by (simp add: pragma_table_info_def found token accepted)
  show "select_count db (obj_name e) =
           (case obj_storage e of
              MissingModule m \<Rightarrow> Inl (no_such_module m)
            | Rows rs \<Rightarrow> Inr (int (length rs))
            | RootDamaged None \<Rightarrow> Inl malformed
            | RootDamaged (Some entries) \<Rightarrow> Inr (int entries))"
    by (simp add: select_count_def found token)
  show "select_limit db (obj_name e) limit =
           (case obj_storage e of
              MissingModule m \<Rightarrow> Inl (no_such_module m)
            | Rows rs \<Rightarrow>
                if int64 limit
                then Inr (map col_name (obj_columns e),
                          if limit < 0 then rs else take (nat limit) rs)
                else Inl datatype_mismatch
            | RootDamaged index \<Rightarrow>
                if \<not> int64 limit then Inl datatype_mismatch
                else if limit = 0 then Inr (map col_name (obj_columns e), [])
                else Inl malformed)"
    by (simp add: select_limit_def found token)
qed

lemma update_new_key: "k \<notin> fst ` set al \<Longrightarrow> AList.update k v al = al @ [(k, v)]"
  by (induction al) auto

lemma distinct_names:
  "distinct (map (\<lambda>e. upper (obj_name e)) es) \<Longrightarrow> distinct (map obj_name es)"
  by (induction es) auto

lemma distinct_table_names:
  assumes "valid_catalog entries"
  shows "distinct (map obj_name (filter (\<lambda>e. obj_type e = TableObj) entries))"
  using assms unfolding valid_catalog_def by (rule distinct_names)

lemma explore_tables_plain:
  assumes "valid_catalog (catalog db)" and "set es \<subseteq> set (catalog db)"
    and "\<forall>e \<in> set es. obj_type e = TableObj \<and> word (obj_name e) \<and> \<not> refused (obj_name e)
                       \<and> (\<exists>rs. obj_storage e = Rows rs)"
    and "distinct (map obj_name es)"
    and "obj_name ` set es \<inter> fst ` set acc = {}"
  shows "explore_tables db (map obj_name es) acc
         = Inr (acc @ map (\<lambda>e. describe e (stored_rows e)) es)"
  using assms(2-5)
proof (induction es arbitrary: acc)
  case Nil
  show ?case by simp
next
  case (Cons e es)
  obtain rs where rs: "obj_storage e = Rows rs"
    using Cons.prems(2) by auto
  have e: "e \<in> set (catalog db)" "obj_type e = TableObj" "word (obj_name e)"
    "\<not> refused (obj_name e)"
    using Cons.prems(1,2) by auto
  have cols: "pragma_table_info db (obj_name e) = Inr (table_info_rows e)"
    using statements_on_word(1) [OF assms(1) e] rs by simp
  have cnt: "select_count db (obj_name e) = Inr (int (length rs))"
    using statements_on_word(2) [OF assms(1) e] rs by simp
  have new: "obj_name e \<notin> fst ` set acc"
    using Cons.prems(4) by auto
  have upd: "AList.update (obj_name e)
               \<lparr>columns = table_info_rows e, row_count = int (length rs)\<rparr> acc
             = acc @ [describe e (stored_rows e)]"
    using new rs by (simp add: update_new_key describe_def stored_rows_def)
  have disjoint: "obj_name ` set es \<inter> fst ` set (acc @ [describe e (stored_rows e)]) = {}"
    using Cons.prems(3,4) by (auto simp: describe_def)
  have "explore_tables db (map obj_name es) (acc @ [describe e (stored_rows e)])
        = Inr ((acc @ [describe e (stored_rows e)]) @ map (\<lambda>e. describe e (stored_rows e)) es)"
    using Cons.prems(1,2,3) disjoint by (intro Cons.IH) auto
  then show ?case
    by (simp add: cols cnt upd)
qed

text \<open>
  What the exploration does by design: for a valid catalog in which every table has rows
  and a name that is a word SQLite accepts, it returns one descriptor for each table of
  the catalog, in catalog order, with the columns \<^verbatim>\<open>PRAGMA table_info\<close> lists for the
  table and the number of its own rows.
\<close>

lemma explore_database_plain:
  assumes "fs path = Database db" and "valid_catalog (catalog db)"
    and "\<forall>e \<in> set (catalog db).
           obj_type e = TableObj \<longrightarrow>
             word (obj_name e) \<and> \<not> refused (obj_name e) \<and> (\<exists>rs. obj_storage e = Rows rs)"
  shows "explore_database fs path
         = Inr (map (\<lambda>e. describe e (stored_rows e))
                    (filter (\<lambda>e. obj_type e = TableObj) (catalog db)))"
proof -
  let ?es = "filter (\<lambda>e. obj_type e = TableObj) (catalog db)"
  have "explore_tables db (map obj_name ?es) []
        = Inr ([] @ map (\<lambda>e. describe e (stored_rows e)) ?es)"
    using assms(2,3) distinct_table_names [OF assms(2)]
    by (intro explore_tables_plain) auto
  then show ?thesis
    using assms(1) by (simp add: explore_database_def select_table_names_def)
qed

lemma explore_shop: "explore_database (on_disk shop) tmp_path = Inr shop_info"
  by code_simp

text \<open>
  Claim C2 at a failing input. A database with the tables \<^verbatim>\<open>customers\<close>, \<^verbatim>\<open>orders\<close> and
  \<^verbatim>\<open>Order Details\<close> has a valid catalog that lists three tables, but
  \<^verbatim>\<open>explore_database\<close> raises and returns no mapping: the name goes into
  \<^verbatim>\<open>PRAGMA table_info(Order Details)\<close> without quotes, and SQLite stops at the first
  word with the message \<^verbatim>\<open>near "Order": syntax error\<close>. This holds whatever SQLite
  answers to the texts the model does not interpret.
\<close>

theorem explore_raises_on_name_with_blank:
  "\<forall>oi oc os.
     valid_catalog [customers, orders, order_details]
     \<and> select_table_names [customers, orders, order_details]
         = [''customers'', ''orders'', ''Order Details'']
     \<and> explore_database
         (on_disk (Database \<lparr>catalog = [customers, orders, order_details], other_info = oi,
                             other_count = oc, other_select = os\<rparr>))
         tmp_path
         = Inl (OperationalError
                 (''near '' @ [CHR 0x22] @ ''Order'' @ [CHR 0x22] @ '': syntax error''))"
  by (intro allI conjI; code_simp)

text \<open>
  Claim C3 at a failing input. A valid catalog has a table \<^verbatim>\<open>t\<close> (one column, one row)
  and a table whose name is the three characters \<^verbatim>\<open>[t]\<close> (two columns, no row). The name
  goes into the statements without quotes, where SQLite reads \<^verbatim>\<open>[t]\<close> as the name \<^verbatim>\<open>t\<close>:
  the descriptor returned under the key \<^verbatim>\<open>[t]\<close> has the column and the row count of \<^verbatim>\<open>t\<close>.
\<close>

theorem explore_miscounts_bracketed_name:
  "\<forall>oi oc os.
     valid_catalog bracket_catalog
     \<and> map (\<lambda>e. (obj_type e, obj_name e, length (obj_columns e), obj_storage e)) bracket_catalog
         = [(TableObj, ''t'', 1, Rows [[SqlInteger 7]]), (TableObj, ''[t]'', 2, Rows [])]
     \<and> explore_database
         (on_disk (Database \<lparr>catalog = bracket_catalog, other_info = oi,
                             other_count = oc, other_select = os\<rparr>))
         tmp_path
         = Inr [(''t'', \<lparr>columns = [(0, ''x'', ''INTEGER'', 0, None, 0)], row_count = 1\<rparr>),
                (''[t]'', \<lparr>columns = [(0, ''x'', ''INTEGER'', 0, None, 0)], row_count = 1\<rparr>)]"
  by (intro allI conjI; code_simp)

lemma explore_tables_fails:
  assumes "t \<in> set ts"
    and "isl (pragma_table_info db t) \<or> isl (select_count db t)"
  shows "\<exists>e. explore_tables db ts ti = Inl e"
  using assms(1)
proof (induction ts arbitrary: ti)
  case Nil
  then show ?case by simp
next
  case (Cons u us)
  show ?case
  proof (cases "isl (pragma_table_info db u) \<or> isl (select_count db u)")
    case True
    then show ?thesis
      by (auto simp: isl_def split: sum.splits)
  next
    case False
    with Cons.prems assms(2) have "t \<in> set us" by auto
    then have "\<exists>e. explore_tables db us ti' = Inl e" for ti'
      using Cons.IH by blast
    then show ?thesis
      by (auto split: sum.splits)
  qed
qed

text \<open>
  The exploration raises for a file that is not a database or that SQLite cannot use, and
  for a database with a table that cannot be counted (damaged with no index, or a virtual
  table without its module) and whose name is a word SQLite accepts.
\<close>

lemma explore_database_fails:
  assumes "bytes = NotADatabase \<or> (\<exists>x. bytes = Unusable x)
           \<or> (\<exists>db e. bytes = Database db \<and> valid_catalog (catalog db) \<and> e \<in> set (catalog db)
                \<and> obj_type e = TableObj \<and> word (obj_name e) \<and> \<not> refused (obj_name e)
                \<and> (obj_storage e = RootDamaged None \<or> (\<exists>m. obj_storage e = MissingModule m)))"
    and "fs path = bytes"
  shows "\<exists>e. explore_database fs path = Inl e"
proof (cases "bytes = NotADatabase \<or> (\<exists>x. bytes = Unusable x)")
  case True
  with assms(2) show ?thesis by (auto simp: explore_database_def)
next
  case False
  with assms(1) obtain db e where db: "bytes = Database db"
    and e: "valid_catalog (catalog db)" "e \<in> set (catalog db)" "obj_type e = TableObj"
      "word (obj_name e)" "\<not> refused (obj_name e)"
    and storage: "obj_storage e = RootDamaged None \<or> (\<exists>m. obj_storage e = MissingModule m)"
    by blast
  have "isl (pragma_table_info db (obj_name e)) \<or> isl (select_count db (obj_name e))"
    using storage statements_on_word(1,2) [OF e] by auto
  moreover have "obj_name e \<in> set (select_table_names (catalog db))"
    using e(2,3) by (auto simp: select_table_names_def)
  ultimately have "\<exists>x. explore_tables db (select_table_names (catalog db)) [] = Inl x"
    by (rule explore_tables_fails [rotated])
  with db assms(2) show ?thesis
    by (simp add: explore_database_def)
qed

subsection \<open>The preview\<close>

text \<open>
  What the preview does by design, for a table that has rows and a name that is a word
  SQLite accepts: with a limit \<open>k\<close> in the signed 64-bit range it returns the first
  \<open>k\<close> rows when \<open>0 \<le> k\<close> and all the rows when \<open>k < 0\<close>; a call that leaves the limit
  out is the call with limit 5.
\<close>

lemma preview_table_plain:
  assumes "fs path = Database db" and "valid_catalog (catalog db)"
    and "e \<in> set (catalog db)" and "obj_type e = TableObj"
    and "word (obj_name e)" and "\<not> refused (obj_name e)" and "obj_storage e = Rows rs"
    and "int64 k"
  shows "preview_table fs path (obj_name e) (Some k) =
           Inr (map col_name (obj_columns e), if k < 0 then rs else take (nat k) rs)"
    and "preview_table fs path (obj_name e) None = preview_table fs path (obj_name e) (Some 5)"
  using statements_on_word(3) [OF assms(2,3,4,5,6), of k] assms(1,7,8)
  by (simp_all add: preview_table_def)

text \<open>
  Claim C4 at a failing input. In the catalog with the tables \<^verbatim>\<open>t\<close> (one row) and
  \<^verbatim>\<open>[t]\<close> (no row), the preview of the table \<^verbatim>\<open>[t]\<close> with limit 5, and with the limit
  left out, returns the column and the row of \<^verbatim>\<open>t\<close>: the name goes into
  \<^verbatim>\<open>SELECT * FROM [t] LIMIT 5\<close> without quotes. The table \<^verbatim>\<open>[t]\<close> has fewer than 5 rows
  and the preview does not return its rows (none), but a row that is not in the table.
\<close>

theorem preview_reads_another_table:
  "\<forall>oi oc os.
     valid_catalog bracket_catalog
     \<and> map (\<lambda>e. (obj_type e, obj_name e, map col_name (obj_columns e), obj_storage e))
           bracket_catalog
         = [(TableObj, ''t'', [''x''], Rows [[SqlInteger 7]]),
            (TableObj, ''[t]'', [''a'', ''b''], Rows [])]
     \<and> preview_table
         (on_disk (Database \<lparr>catalog = bracket_catalog, other_info = oi,
                             other_count = oc, other_select = os\<rparr>))
         tmp_path ''[t]'' (Some 5)
         = Inr ([''x''], [[SqlInteger 7]])
     \<and> preview_table
         (on_disk (Database \<lparr>catalog = bracket_catalog, other_info = oi,
                             other_count = oc, other_select = os\<rparr>))
         tmp_path ''[t]'' None
         = Inr ([''x''], [[SqlInteger 7]])"
  by (intro allI conjI; code_simp)

subsection \<open>The agent bridge\<close>

lemma sublist_left:
  assumes "sublist x a"
  shows "sublist x (a @ b)"
proof -
  from assms obtain ps ss where "a = ps @ x @ ss"
    by (auto simp: sublist_def)
  then have "a @ b = ps @ x @ (ss @ b)" by simp
  then show ?thesis unfolding sublist_def by blast
qed

lemma sublist_right:
  assumes "sublist x b"
  shows "sublist x (a @ b)"
proof -
  from assms obtain ps ss where "b = ps @ x @ ss"
    by (auto simp: sublist_def)
  then have "a @ b = (a @ ps) @ x @ ss" by simp
  then show ?thesis unfolding sublist_def by blast
qed

lemma sublist_join: "x \<in> set xs \<Longrightarrow> sublist x (join sep xs)"
proof (induction sep xs rule: join.induct)
  case (1 sep)
  then show ?case by simp
next
  case (2 sep y)
  then show ?case by simp
next
  case (3 sep y z zs)
  show ?case
  proof (cases "x = y")
    case True
    then show ?thesis by simp
  next
    case False
    with 3 have "sublist x (join sep (z # zs))" by simp
    then show ?thesis by (simp add: sublist_right)
  qed
qed

lemma foldl_lines: "foldl (\<lambda>msg item. msg @ f item) a xs = a @ concat (map f xs)"
  by (induction xs arbitrary: a) simp_all

lemma sublist_concat: "y \<in> set ys \<Longrightarrow> sublist y (concat ys)"
  by (induction ys) (auto simp: sublist_left sublist_right)

lemma compose_system_message_eq:
  "compose_system_message ti =
     prompt_head (map fst ti) @ concat (map table_line ti) @ prompt_rules"
  by (simp add: compose_system_message_def foldl_lines)

lemma sublist_line:
  assumes "item \<in> set ti" and "sublist x (table_line item)"
  shows "sublist x (compose_system_message ti)"
proof -
  have "sublist (table_line item) (concat (map table_line ti))"
    using assms(1) by (intro sublist_concat) simp
  with assms(2) have "sublist x (concat (map table_line ti))"
    by (rule sublist_order.order_trans)
  then show ?thesis
    unfolding compose_system_message_eq by (intro sublist_right sublist_left)
qed

lemma table_name_in_line: "sublist (fst item) (table_line item)"
  unfolding table_line_def by (intro sublist_right sublist_left) simp

lemma column_name_in_line:
  "col \<in> set (columns (snd item)) \<Longrightarrow> sublist (fst (snd col)) (table_line item)"
  unfolding table_line_def by (intro sublist_right sublist_join) simp

lemma rules_in_message:
  "sublist rule_exact (compose_system_message ti)"
  "sublist rule_limit (compose_system_message ti)"
  "sublist rule_numeric (compose_system_message ti)"
  "sublist rule_confirm (compose_system_message ti)"
  unfolding compose_system_message_eq prompt_rules_def
  by (intro sublist_right sublist_left, simp)+

text \<open>
  Claim C10. \<^verbatim>\<open>get_agent_response\<close> calls \<^verbatim>\<open>explore_database\<close> before its \<^verbatim>\<open>try\<close>:
  when the exploration raises, the function makes no agent call and raises the same
  exception, instead of returning the text that starts with "Error processing query".
\<close>

theorem exploration_failure_propagates: 
  "explore_database fs path = Inl e \<Longrightarrow> get_agent_response w fs query path = ([], Inl e)"
  by (simp add: get_agent_response_def)

text \<open>
  The hypothesis of C10 holds for a file that is not a database.
\<close>

theorem exploration_failure_propagates_witness:
  "explore_database (on_disk NotADatabase) tmp_path = Inl not_a_database
   \<and> get_agent_response offline_world (on_disk NotADatabase) ''How many customers?'' tmp_path
       = ([], Inl not_a_database)"
  using exploration_failure_propagates [of "on_disk NotADatabase" tmp_path not_a_database offline_world
      "''How many customers?''"]
  by (simp add: explore_database_def on_disk_def)

text \<open>
  Claim C5. When the exploration has returned and the body of the \<^verbatim>\<open>try\<close> raises (in
  \<^verbatim>\<open>agent.run\<close> or while the reply is cleaned), \<^verbatim>\<open>get_agent_response\<close> returns the
  text "Error processing query: " followed by the message of the exception; it returns,
  it does not raise. The exceptions are those \<^verbatim>\<open>except Exception\<close> catches; an interrupt
  of the process is not a failure of the call and is outside the model.
\<close>

theorem agent_failure_becomes_text:
  assumes "explore_database fs path = Inr table_info"
    and "run_agent w (make_agent w path table_info) query = Inl e"
  shows "snd (get_agent_response w fs query path) = Inr (''Error processing query: '' @ str_exn e)"
  using assms by (simp add: get_agent_response_def Let_def)

text \<open>
  The hypotheses of C5 hold for the shop database and an agent that cannot connect.
\<close>

theorem agent_failure_becomes_text_witness:
  "explore_database (on_disk shop) tmp_path = Inr shop_info
   \<and> run_agent offline_world (make_agent offline_world tmp_path shop_info) ''How many customers?''
       = Inl (AgentError ''Connection error.'')
   \<and> snd (get_agent_response offline_world (on_disk shop) ''How many customers?'' tmp_path)
       = Inr ''Error processing query: Connection error.''"
  using agent_failure_becomes_text [of "on_disk shop" tmp_path shop_info offline_world "''How many customers?''"
      "AgentError ''Connection error.''"] explore_shop
  by (simp add: run_agent_def offline_world_def)

text \<open>
  Claim C6. When the exploration returns, the agent is run once, and the system message
  it is built with contains every table name the exploration returned, every column name
  of every such table, and the four rules, quoted here as the module has them: exact
  identifiers, no limit unless asked, numeric tool parameters, confirm the table list
  when unsure.
\<close>

theorem prompt_lists_schema_and_rules:
  assumes "explore_database fs path = Inr table_info"
  shows "fst (get_agent_response w fs query path) = [(make_agent w path table_info, query)]
    \<and> (\<forall>item \<in> set table_info.
          sublist (fst item) (system_message (make_agent w path table_info))
          \<and> (\<forall>col \<in> set (columns (snd item)).
                sublist (fst (snd col)) (system_message (make_agent w path table_info))))
    \<and> sublist ''- Use the EXACT table names and column names as provided above''
         (system_message (make_agent w path table_info))
    \<and> sublist ''- Do not include any `limit` parameter when calling tools unless explicitly requested by the user''
         (system_message (make_agent w path table_info))
    \<and> sublist ''- Always return numeric values (not strings) for tool parameters''
         (system_message (make_agent w path table_info))
    \<and> sublist ''- First use list_tables() to confirm available tables if unsure''
         (system_message (make_agent w path table_info))"
proof -
  have msg: "system_message (make_agent w path table_info) = compose_system_message table_info"
    by (simp add: make_agent_def)
  have calls: "fst (get_agent_response w fs query path) = [(make_agent w path table_info, query)]"
    using assms by (simp add: get_agent_response_def Let_def)
  have names: "sublist (fst item) (compose_system_message table_info)"
    if "item \<in> set table_info" for item
    using that table_name_in_line by (rule sublist_line)
  have cols: "sublist (fst (snd col)) (compose_system_message table_info)"
    if "item \<in> set table_info" and "col \<in> set (columns (snd item))" for item col
    using that(1) column_name_in_line [OF that(2)] by (rule sublist_line)
  note rules = rules_in_message [of table_info,
      unfolded rule_exact_def rule_limit_def rule_numeric_def rule_confirm_def]
  show ?thesis
    unfolding msg using calls names cols rules by blast
qed

text \<open>
  C6 at the shop database: a table name, a column name and two of the rules are in the
  message.
\<close>

theorem prompt_lists_schema_and_rules_witness:
  "explore_database (on_disk shop) tmp_path = Inr shop_info
   \<and> sublist ''customers'' (system_message (make_agent offline_world tmp_path shop_info))
   \<and> sublist ''customer_id'' (system_message (make_agent offline_world tmp_path shop_info))
   \<and> sublist ''- Do not include any `limit` parameter when calling tools unless explicitly requested by the user''
        (system_message (make_agent offline_world tmp_path shop_info))
   \<and> sublist ''- First use list_tables() to confirm available tables if unsure''
        (system_message (make_agent offline_world tmp_path shop_info))"
  using prompt_lists_schema_and_rules [of "on_disk shop" tmp_path shop_info offline_world "''How many customers?''"]
    explore_shop
  by (simp add: shop_info_def)

subsection \<open>A run of the page\<close>

lemma agent_calls_simps [simp]:
  "agent_calls [] = []"
  "agent_calls (a @ b) = agent_calls a @ agent_calls b"
  "agent_calls (AgentRun agent query # evs) = (agent, query) # agent_calls evs"
  "agent_calls (StSuccess x # evs) = agent_calls evs"
  "agent_calls (StError x # evs) = agent_calls evs"
  "agent_calls (StInfo x # evs) = agent_calls evs"
  "agent_calls (StWarning x # evs) = agent_calls evs"
  "agent_calls (StCode x # evs) = agent_calls evs"
  "agent_calls (StMarkdown x # evs) = agent_calls evs"
  "agent_calls (StChatMessage x # evs) = agent_calls evs"
  "agent_calls (StExpander x rows # evs) = agent_calls evs"
  "agent_calls (StDataframe df # evs) = agent_calls evs"
  "agent_calls (StRerun # evs) = agent_calls evs"
  by (simp_all add: agent_calls_def)

lemma expanders_simps [simp]:
  "expanders [] = []"
  "expanders (a @ b) = expanders a @ expanders b"
  "expanders (StExpander x rows # evs) = x # expanders evs"
  "expanders (AgentRun agent query # evs) = expanders evs"
  "expanders (StSuccess x # evs) = expanders evs"
  "expanders (StError x # evs) = expanders evs"
  "expanders (StInfo x # evs) = expanders evs"
  "expanders (StWarning x # evs) = expanders evs"
  "expanders (StCode x # evs) = expanders evs"
  "expanders (StMarkdown x # evs) = expanders evs"
  "expanders (StChatMessage x # evs) = expanders evs"
  "expanders (StDataframe df # evs) = expanders evs"
  "expanders (StRerun # evs) = expanders evs"
  by (simp_all add: expanders_def)

lemma no_agent_calls: "agent_calls evs = [] \<Longrightarrow> AgentRun agent query \<notin> set evs"
  by (induction evs) (auto simp: agent_calls_def split: event.splits)

lemma no_expanders: "expanders evs = [] \<Longrightarrow> StExpander label rows \<notin> set evs"
  by (induction evs) (auto simp: expanders_def split: event.splits)

lemma agent_calls_show_tables: "agent_calls (fst (show_tables fs clicked path ti)) = []"
proof (induction ti)
  case Nil
  show ?case by simp
next
  case (Cons item items)
  obtain table_name info where item: "item = (table_name, info)" by (cases item)
  obtain evs r where rest: "show_tables fs clicked path items = (evs, r)"
    by (cases "show_tables fs clicked path items")
  with Cons have "agent_calls evs = []" by simp
  with item rest show ?case
    by (simp add: Let_def split: sum.splits)
qed

lemma agent_calls_sidebar: "agent_calls (snd (sidebar inp st)) = []"
proof (cases "uploaded_file inp")
  case None
  then show ?thesis by (simp add: sidebar_def)
next
  case (Some up)
  obtain name bytes where up: "up = (name, bytes)" by (cases up)
  let ?fs = "(files st)(tmp_name inp := bytes)"
  show ?thesis
  proof (cases "explore_database ?fs (tmp_name inp)")
    case (Inl e)
    with Some up show ?thesis
      by (simp add: sidebar_def Let_def exploring_error_def)
  next
    case (Inr ti)
    obtain evs r where shown: "show_tables ?fs (preview_clicked inp) (tmp_name inp) ti = (evs, r)"
      by (cases "show_tables ?fs (preview_clicked inp) (tmp_name inp) ti")
    have "agent_calls evs = []"
      using agent_calls_show_tables [of ?fs "preview_clicked inp" "tmp_name inp" ti] shown
      by simp
    with Some up Inr shown show ?thesis
      by (cases r) (simp_all add: sidebar_def Let_def exploring_error_def)
  qed
qed

lemma agent_calls_show_history: "agent_calls (show_history ms) = []"
  by (induction ms) (simp_all add: show_history_def)

lemma expanders_show_history: "expanders (show_history ms) = []"
  by (induction ms) (simp_all add: show_history_def)

lemma expanders_respond: "expanders (fst (respond w fs prompt path)) = []"
proof -
  have "expanders (map (\<lambda>(agent, query). AgentRun agent query) calls) = []" for calls
    by (induction calls) auto
  then show ?thesis
    by (auto simp: respond_def Let_def split: sum.splits prod.splits)
qed

lemma expanders_ask: "expanders (snd (ask w fs prompt path s)) = []"
  using expanders_respond [of w fs prompt path]
  by (auto simp: ask_def Let_def split: sum.splits prod.splits)

lemma respond_without_key:
  "key_absent w \<Longrightarrow> respond w fs prompt path = ([StError key_missing_error], Inr configure_message)"
  by (simp add: respond_def)

lemma ask_without_key:
  assumes "key_absent w"
  shows "ask w fs prompt path s =
           (s\<lparr>messages := Some (history s @ [user_turn prompt, assistant_turn configure_message])\<rparr>,
            [StChatMessage ''user'', StMarkdown prompt, StChatMessage ''assistant'',
             StError key_missing_error, StMarkdown configure_message])"
  using assms by (simp add: ask_def respond_without_key)

lemma history_update [simp]: "history (s\<lparr>messages := Some ms\<rparr>) = ms"
  by (simp add: history_def)

lemma history_sidebar: "history (session (fst (sidebar inp st))) = history (session st)"
  by (cases "uploaded_file inp") (auto simp: sidebar_def Let_def history_def)

lemma files_sidebar:
  "files (fst (sidebar inp st)) =
     (case uploaded_file inp of None \<Rightarrow> files st
      | Some (name, bytes) \<Rightarrow> (files st)(tmp_name inp := bytes))"
  by (cases "uploaded_file inp") (auto simp: sidebar_def Let_def)

lemma ask_messages:
  "messages (fst (ask w fs prompt path s)) =
     Some (history s @ [user_turn prompt, assistant_turn (shown_reply (snd (respond w fs prompt path)))])"
  by (cases "respond w fs prompt path")
     (auto simp: ask_def Let_def shown_reply_def split: sum.splits)

lemma ask_frame:
  "db_path (fst (ask w fs prompt path s)) = db_path s"
  "db_name (fst (ask w fs prompt path s)) = db_name s"
  by (cases "respond w fs prompt path"; auto simp: ask_def Let_def split: sum.splits)+

text \<open>
  What \<open>main\<close> does once the sidebar has left a database connected.
\<close>

lemma main_connected:
  assumes "db_path (session (fst (sidebar inp st))) = Some path"
    and "db_name (session (fst (sidebar inp st))) = Some name"
  shows "main w inp st =
    (let st1 = fst (sidebar inp st);
         s2 = (session st1)\<lparr>messages := Some (history (session st1))\<rparr>;
         asked = (case chat_input inp of
                    None \<Rightarrow> (s2, [])
                  | Some prompt \<Rightarrow>
                      if prompt = [] then (s2, []) else ask w (files st1) prompt path s2);
         cleared = (if clear_clicked inp then (clear_history (fst asked), [StRerun])
                    else (fst asked, []))
     in (st1\<lparr>session := fst cleared\<rparr>,
         snd (sidebar inp st) @ [StInfo (''Currently connected to: **'' @ name @ ''**'')]
           @ show_history (history s2) @ snd asked @ snd cleared,
         None))"
proof -
  obtain st1 side where sb: "sidebar inp st = (st1, side)"
    by (cases "sidebar inp st")
  with assms show ?thesis
    by (simp add: main_def Let_def split: prod.splits option.splits)
qed

lemma sidebar_names:
  assumes "db_path (session st) \<noteq> None \<longrightarrow> db_name (session st) \<noteq> None"
  shows "db_path (session (fst (sidebar inp st))) \<noteq> None
         \<longrightarrow> db_name (session (fst (sidebar inp st))) \<noteq> None"
  using assms by (cases "uploaded_file inp") (auto simp: sidebar_def Let_def)

lemma main_completes:
  assumes "db_path (session st) \<noteq> None \<longrightarrow> db_name (session st) \<noteq> None"
  shows "snd (snd (main w inp st)) = None"
proof (cases "db_path (session (fst (sidebar inp st)))")
  case None
  then show ?thesis
    by (cases "sidebar inp st") (simp add: main_def)
next
  case (Some path)
  have "db_name (session (fst (sidebar inp st))) \<noteq> None"
    using assms Some
    by (cases "uploaded_file inp") (auto simp: sidebar_def Let_def)
  then obtain name where "db_name (session (fst (sidebar inp st))) = Some name"
    by auto
  with Some show ?thesis
    by (simp add: main_connected Let_def)
qed

lemma main_question:
  assumes "db_path (session (fst (sidebar inp st))) = Some path"
    and "db_name (session (fst (sidebar inp st))) = Some name"
    and "chat_input inp = Some prompt" and "prompt \<noteq> []" and "\<not> clear_clicked inp"
  shows "fst (main w inp st) =
           (fst (sidebar inp st))\<lparr>session :=
              fst (ask w (files (fst (sidebar inp st))) prompt path
                     ((session (fst (sidebar inp st)))
                        \<lparr>messages := Some (history (session st))\<rparr>))\<rparr>"
    and "snd (snd (main w inp st)) = None"
  using assms(3-5) by (simp_all add: main_connected [OF assms(1,2)] Let_def history_sidebar)

text \<open>
  Claim C1. A run of the page in which a question is asked while \<^verbatim>\<open>GROQ_API_KEY\<close> is
  unset or empty, with a database connected: no event of the run is a call of the agent,
  and the transcript the run leaves is the earlier one followed by the question as a turn
  of role "user" and by a turn of role "assistant" whose content is exactly
  "Please configure your GROQ API key to use this feature.". The run ends normally.
\<close>

theorem question_without_key:
  assumes "groq_api_key w = None \<or> groq_api_key w = Some []"
    and "chat_input inp = Some prompt" and "prompt \<noteq> []"
    and "\<not> clear_clicked inp"
    and "db_path (session (fst (sidebar inp st))) = Some path"
    and "db_name (session (fst (sidebar inp st))) = Some name"
  shows "(\<forall>agent query. AgentRun agent query \<notin> set (fst (snd (main w inp st))))
    \<and> messages (session (fst (main w inp st))) =
        Some ((case messages (session st) of None \<Rightarrow> [] | Some ms \<Rightarrow> ms)
              @ [\<lparr>role = ''user'', content = prompt\<rparr>,
                 \<lparr>role = ''assistant'',
                  content = ''Please configure your GROQ API key to use this feature.''\<rparr>])
    \<and> snd (snd (main w inp st)) = None"
proof -
  have absent: "key_absent w"
    using assms(1) by (simp add: key_absent_def)
  have reply: "shown_reply (snd (respond w fs prompt path)) = configure_message" for fs
    using absent by (simp add: respond_without_key shown_reply_def)
  have calls: "agent_calls (snd (ask w fs prompt path s)) = []" for fs s
    using absent by (simp add: ask_without_key)
  have "agent_calls (fst (snd (main w inp st))) = []"
    using assms(2-4) calls
    by (simp add: main_connected [OF assms(5,6)] Let_def agent_calls_sidebar
          agent_calls_show_history)
  then have none: "\<forall>agent query. AgentRun agent query \<notin> set (fst (snd (main w inp st)))"
    using no_agent_calls by blast
  have "messages (session (fst (main w inp st))) =
        Some (history (session st) @ [user_turn prompt, assistant_turn configure_message])"
    using main_question(1) [OF assms(5,6,2,3,4), of w]
    by (simp add: ask_messages reply)
  then have msgs: "messages (session (fst (main w inp st))) =
        Some ((case messages (session st) of None \<Rightarrow> [] | Some ms \<Rightarrow> ms)
              @ [\<lparr>role = ''user'', content = prompt\<rparr>,
                 \<lparr>role = ''assistant'',
                  content = ''Please configure your GROQ API key to use this feature.''\<rparr>])"
    by (simp add: history_def user_turn_def assistant_turn_def configure_message_def)
  have "snd (snd (main w inp st)) = None"
    using main_question(2) [OF assms(5,6,2,3,4)] .
  with none msgs show ?thesis by blast
qed

text \<open>
  C1 at a session that has two turns: a question is asked without a key, and the
  transcript has four turns afterwards.
\<close>

theorem question_without_key_witness:
  "(\<forall>agent query. AgentRun agent query
       \<notin> set (fst (snd (main keyless_world (question ''How many orders?'') chatting_state))))
   \<and> messages (session (fst (main keyless_world (question ''How many orders?'') chatting_state))) =
       Some [\<lparr>role = ''user'', content = ''How many customers?''\<rparr>,
             \<lparr>role = ''assistant'', content = ''There are 3 customers.''\<rparr>,
             \<lparr>role = ''user'', content = ''How many orders?''\<rparr>,
             \<lparr>role = ''assistant'',
              content = ''Please configure your GROQ API key to use this feature.''\<rparr>]"
  using question_without_key [of keyless_world "question ''How many orders?''" "''How many orders?''"
      chatting_state tmp_path "''shop.sqlite''"]
  by (simp add: keyless_world_def question_def chatting_state_def sidebar_def
        user_turn_def assistant_turn_def)

text \<open>
  Claim C8. A run of the page in which a question is asked, the key is set, the
  exploration returns and the agent call fails: the transcript the run leaves is the
  earlier one followed by the question as a turn of role "user" and by a turn of role
  "assistant" whose content is "Error processing query: " and the message of the
  exception; the database path and the display name are as the sidebar left them; the
  run ends normally. Whatever has become of the files, every later run from the state it
  leaves ends normally, and a question asked in a later run is added to this transcript
  with its reply.
\<close>

theorem failed_call_leaves_session_usable:
  assumes "groq_api_key w = Some key" and "key \<noteq> []"
    and "chat_input inp = Some prompt" and "prompt \<noteq> []"
    and "\<not> clear_clicked inp"
    and "db_path (session (fst (sidebar inp st))) = Some path"
    and "db_name (session (fst (sidebar inp st))) = Some name"
    and "explore_database (files (fst (sidebar inp st))) path = Inr table_info"
    and "run_agent w (make_agent w path table_info) prompt = Inl e"
  shows "messages (session (fst (main w inp st))) =
           Some ((case messages (session st) of None \<Rightarrow> [] | Some ms \<Rightarrow> ms)
                 @ [\<lparr>role = ''user'', content = prompt\<rparr>,
                    \<lparr>role = ''assistant'',
                     content = ''Error processing query: '' @ str_exn e\<rparr>])
    \<and> db_path (session (fst (main w inp st))) = Some path
    \<and> db_name (session (fst (main w inp st))) = Some name
    \<and> snd (snd (main w inp st)) = None
    \<and> (\<forall>w' inp' fs'.
          snd (snd (main w' inp' ((fst (main w inp st))\<lparr>files := fs'\<rparr>))) = None)
    \<and> (\<forall>w' inp' fs' prompt'.
          chat_input inp' = Some prompt' \<and> prompt' \<noteq> [] \<and> \<not> clear_clicked inp'
          \<longrightarrow> (\<exists>reply.
                messages (session (fst (main w' inp' ((fst (main w inp st))\<lparr>files := fs'\<rparr>)))) =
                  Some ((case messages (session st) of None \<Rightarrow> [] | Some ms \<Rightarrow> ms)
                        @ [\<lparr>role = ''user'', content = prompt\<rparr>,
                           \<lparr>role = ''assistant'',
                            content = ''Error processing query: '' @ str_exn e\<rparr>,
                           \<lparr>role = ''user'', content = prompt'\<rparr>,
                           \<lparr>role = ''assistant'', content = reply\<rparr>])))"
proof -
  let ?st1 = "fst (sidebar inp st)"
  let ?st' = "fst (main w inp st)"
  let ?ms = "(case messages (session st) of None \<Rightarrow> [] | Some ms \<Rightarrow> ms)
                 @ [\<lparr>role = ''user'', content = prompt\<rparr>,
                    \<lparr>role = ''assistant'',
                     content = ''Error processing query: '' @ str_exn e\<rparr>]"
  have present: "\<not> key_absent w"
    using assms(1,2) by (simp add: key_absent_def)
  have reply: "snd (respond w (files ?st1) prompt path)
               = Inr (''Error processing query: '' @ str_exn e)"
    using present assms(8,9)
    by (simp add: respond_def get_agent_response_def Let_def split: prod.splits)
  have st': "?st' =
           ?st1\<lparr>session :=
              fst (ask w (files ?st1) prompt path
                     ((session ?st1)\<lparr>messages := Some (history (session st))\<rparr>))\<rparr>"
    and fin: "snd (snd (main w inp st)) = None"
    using main_question [OF assms(6,7,3,4,5)] by simp_all
  have msgs: "messages (session ?st') = Some ?ms"
    unfolding st'
    by (simp add: ask_messages reply shown_reply_def history_def user_turn_def
          assistant_turn_def)
  have path: "db_path (session ?st') = Some path"
    and name: "db_name (session ?st') = Some name"
    unfolding st' using assms(6,7) by (simp_all add: ask_frame)
  have later: "snd (snd (main w' inp' (?st'\<lparr>files := fs'\<rparr>))) = None" for w' inp' fs'
    by (rule main_completes) (simp add: name)
  have again: "\<exists>reply. messages (session (fst (main w' inp' (?st'\<lparr>files := fs'\<rparr>)))) =
                  Some ((case messages (session st) of None \<Rightarrow> [] | Some ms \<Rightarrow> ms)
                        @ [\<lparr>role = ''user'', content = prompt\<rparr>,
                           \<lparr>role = ''assistant'',
                            content = ''Error processing query: '' @ str_exn e\<rparr>,
                           \<lparr>role = ''user'', content = prompt'\<rparr>,
                           \<lparr>role = ''assistant'', content = reply\<rparr>])"
    if q: "chat_input inp' = Some prompt'" "prompt' \<noteq> []" "\<not> clear_clicked inp'"
    for w' inp' fs' prompt'
  proof -
    let ?st2 = "?st'\<lparr>files := fs'\<rparr>"
    have named: "db_path (session ?st2) \<noteq> None \<longrightarrow> db_name (session ?st2) \<noteq> None"
      by (simp add: name)
    obtain path' where path': "db_path (session (fst (sidebar inp' ?st2))) = Some path'"
      by (cases "uploaded_file inp'") (auto simp: sidebar_def Let_def path)
    with sidebar_names [OF named, of inp']
    obtain name' where name': "db_name (session (fst (sidebar inp' ?st2))) = Some name'"
      by auto
    have hist: "history (session ?st') = ?ms"
      by (simp add: history_def msgs)
    have "messages (session (fst (main w' inp' ?st2))) =
            Some (history (session ?st')
                  @ [user_turn prompt',
                     assistant_turn
                       (shown_reply
                          (snd (respond w' (files (fst (sidebar inp' ?st2))) prompt' path')))])"
      unfolding main_question(1) [OF path' name' q, of w'] by (simp add: ask_messages)
    then show ?thesis
      unfolding hist by (simp add: user_turn_def assistant_turn_def)
  qed
  from again have "\<forall>w' inp' fs' prompt'.
          chat_input inp' = Some prompt' \<and> prompt' \<noteq> [] \<and> \<not> clear_clicked inp'
          \<longrightarrow> (\<exists>reply.
                messages (session (fst (main w' inp' (?st'\<lparr>files := fs'\<rparr>)))) =
                  Some ((case messages (session st) of None \<Rightarrow> [] | Some ms \<Rightarrow> ms)
                        @ [\<lparr>role = ''user'', content = prompt\<rparr>,
                           \<lparr>role = ''assistant'',
                            content = ''Error processing query: '' @ str_exn e\<rparr>,
                           \<lparr>role = ''user'', content = prompt'\<rparr>,
                           \<lparr>role = ''assistant'', content = reply\<rparr>]))"
    by blast
  moreover from later have "\<forall>w' inp' fs'.
          snd (snd (main w' inp' (?st'\<lparr>files := fs'\<rparr>))) = None"
    by blast
  moreover note msgs path name fin
  ultimately show ?thesis
    apply -
    apply (intro conjI)
    apply assumption+
    done
qed

text \<open>
  C8 at a session that has two turns: the agent cannot connect, and the transcript has
  the two turns, the question and the error text afterwards.
\<close>

theorem failed_call_leaves_session_usable_witness:
  "messages (session (fst (main offline_world (question ''How many orders?'') chatting_state))) =
     Some [\<lparr>role = ''user'', content = ''How many customers?''\<rparr>,
           \<lparr>role = ''assistant'', content = ''There are 3 customers.''\<rparr>,
           \<lparr>role = ''user'', content = ''How many orders?''\<rparr>,
           \<lparr>role = ''assistant'', content = ''Error processing query: Connection error.''\<rparr>]
   \<and> db_path (session (fst (main offline_world (question ''How many orders?'') chatting_state)))
       = Some tmp_path
   \<and> db_name (session (fst (main offline_world (question ''How many orders?'') chatting_state)))
       = Some ''shop.sqlite''
   \<and> snd (snd (main offline_world (question ''How many orders?'') chatting_state)) = None"
proof -
  let ?inp = "question ''How many orders?''"
  have same: "fst (sidebar ?inp chatting_state) = chatting_state"
    by (simp add: sidebar_def question_def)
  have explored:
    "explore_database (files (fst (sidebar ?inp chatting_state))) tmp_path = Inr shop_info"
    unfolding same using explore_shop by (simp add: chatting_state_def)
  have "groq_api_key offline_world = Some ''gsk_test''" and "''gsk_test'' \<noteq> []"
    by (simp_all add: offline_world_def)
  moreover have "chat_input ?inp = Some ''How many orders?''"
    and "''How many orders?'' \<noteq> []" and "\<not> clear_clicked ?inp"
    by (simp_all add: question_def)
  moreover have "db_path (session (fst (sidebar ?inp chatting_state))) = Some tmp_path"
    and "db_name (session (fst (sidebar ?inp chatting_state))) = Some ''shop.sqlite''"
    unfolding same by (simp_all add: chatting_state_def)
  moreover note explored
  moreover have "run_agent offline_world (make_agent offline_world tmp_path shop_info)
                   ''How many orders?'' = Inl (AgentError ''Connection error.'')"
    by (simp add: run_agent_def offline_world_def)
  ultimately show ?thesis
    using failed_call_leaves_session_usable [of offline_world "''gsk_test''" ?inp "''How many orders?''" chatting_state
        tmp_path "''shop.sqlite''" shop_info "AgentError ''Connection error.''"]
    by (simp add: chatting_state_def user_turn_def assistant_turn_def)
qed

text \<open>
  Claim C7. A run of the page in which the clear button is pressed, with a database
  connected: the transcript it leaves is empty, and the database path, the display name
  and the files are as the sidebar left them. A question asked in the next run, with no
  new upload, is answered from the same files at the same path and starts the transcript
  anew.
\<close>

theorem clear_keeps_database:
  assumes "clear_clicked inp"
    and "db_path (session (fst (sidebar inp st))) = Some path"
    and "db_name (session (fst (sidebar inp st))) = Some name"
  shows "messages (session (fst (main w inp st))) = Some []
    \<and> db_path (session (fst (main w inp st))) = Some path
    \<and> db_name (session (fst (main w inp st))) = Some name
    \<and> files (fst (main w inp st)) = files (fst (sidebar inp st))
    \<and> snd (snd (main w inp st)) = None
    \<and> (\<forall>inp' prompt.
          uploaded_file inp' = None \<and> chat_input inp' = Some prompt \<and> prompt \<noteq> []
          \<and> \<not> clear_clicked inp'
          \<longrightarrow> messages (session (fst (main w inp' (fst (main w inp st))))) =
                Some [user_turn prompt,
                      assistant_turn
                        (shown_reply (snd (respond w (files (fst (sidebar inp st))) prompt path)))])"
proof -
  let ?st1 = "fst (sidebar inp st)"
  let ?st' = "fst (main w inp st)"
  have frame: "db_path (fst asked) = db_path (session ?st1)
               \<and> db_name (fst asked) = db_name (session ?st1)"
    if "asked = (case chat_input inp of
                   None \<Rightarrow> ((session ?st1)\<lparr>messages := Some (history (session ?st1))\<rparr>, [])
                 | Some prompt \<Rightarrow>
                     if prompt = []
                     then ((session ?st1)\<lparr>messages := Some (history (session ?st1))\<rparr>, [])
                     else ask w (files ?st1) prompt path
                            ((session ?st1)\<lparr>messages := Some (history (session ?st1))\<rparr>))"
    for asked
    using that by (auto simp: ask_frame split: option.splits)
  have msgs: "messages (session ?st') = Some []"
    and path: "db_path (session ?st') = Some path"
    and name: "db_name (session ?st') = Some name"
    and files: "files ?st' = files ?st1"
    and fin: "snd (snd (main w inp st)) = None"
    using assms frame
    by (simp_all add: main_connected [OF assms(2,3)] Let_def clear_history_def)
  have next_run: "messages (session (fst (main w inp' ?st'))) =
                Some [user_turn prompt,
                      assistant_turn (shown_reply (snd (respond w (files ?st1) prompt path)))]"
    if "uploaded_file inp' = None" and "chat_input inp' = Some prompt" and "prompt \<noteq> []"
      and "\<not> clear_clicked inp'" for inp' prompt
  proof -
    have same: "fst (sidebar inp' ?st') = ?st'"
      using that(1) by (simp add: sidebar_def)
    have "fst (main w inp' ?st') =
           (fst (sidebar inp' ?st'))\<lparr>session :=
              fst (ask w (files (fst (sidebar inp' ?st'))) prompt path
                     ((session (fst (sidebar inp' ?st')))
                        \<lparr>messages := Some (history (session ?st'))\<rparr>))\<rparr>"
      by (rule main_question(1) [OF _ _ that(2,3,4)]) (simp_all add: same path name)
    then show ?thesis
      by (simp add: same ask_messages files msgs history_def)
  qed
  from msgs path name files fin next_run show ?thesis by blast
qed

text \<open>
  C7 at a session that has two turns: the button empties the transcript and keeps the
  path and the name.
\<close>

theorem clear_keeps_database_witness:
  "messages (session (fst (main offline_world clear_press chatting_state))) = Some []
   \<and> db_path (session (fst (main offline_world clear_press chatting_state))) = Some tmp_path
   \<and> db_name (session (fst (main offline_world clear_press chatting_state)))
       = Some ''shop.sqlite''"
  using clear_keeps_database [of clear_press chatting_state tmp_path "''shop.sqlite''" offline_world]
  by (simp add: clear_press_def chatting_state_def sidebar_def)

text \<open>
  Claim C9 fails for a file with a table that cannot be read. In the shop database the
  root page of \<^verbatim>\<open>orders\<close> is damaged and the table has an index with two entries: a
  preview of the table raises, yet the exploration returns a descriptor for both tables
  (SQLite counts the rows from the index), and the run that uploads the file shows the
  two tables and no error line.
\<close>

theorem damaged_table_with_index_is_explored:
  "\<forall>oi oc os.
     valid_catalog damaged_indexed_catalog
     \<and> map (\<lambda>e. (obj_type e, obj_name e, obj_storage e)) damaged_indexed_catalog
         = [(TableObj, ''customers'',
             Rows [[SqlInteger 1, SqlText ''Ada'', SqlText ''Germany''],
                   [SqlInteger 2, SqlText ''Bo'', SqlText ''France''],
                   [SqlInteger 3, SqlText ''Cy'', SqlText ''Germany'']]),
            (TableObj, ''orders'', RootDamaged (Some 2))]
     \<and> preview_table
         (on_disk (Database \<lparr>catalog = damaged_indexed_catalog, other_info = oi,
                             other_count = oc, other_select = os\<rparr>))
         tmp_path ''orders'' (Some 5)
         = Inl (PandasDatabaseError
                 (''Execution failed on sql '' @ [CHR 0x27] @ ''SELECT * FROM orders LIMIT 5''
                  @ [CHR 0x27] @ '': database disk image is malformed''))
     \<and> explore_database
         (on_disk (Database \<lparr>catalog = damaged_indexed_catalog, other_info = oi,
                             other_count = oc, other_select = os\<rparr>))
         tmp_path
         = Inr [(''customers'',
                 \<lparr>columns = [(0, ''id'', ''INTEGER'', 0, None, 0),
                             (1, ''name'', ''TEXT'', 0, None, 0),
                             (2, ''country'', ''TEXT'', 0, None, 0)],
                  row_count = 3\<rparr>),
                (''orders'',
                 \<lparr>columns = [(0, ''id'', ''INTEGER'', 0, None, 0),
                             (1, ''customer_id'', ''INTEGER'', 0, None, 0),
                             (2, ''amount'', ''INTEGER'', 0, None, 0)],
                  row_count = 2\<rparr>)]
     \<and> fst (snd (main offline_world
           (upload (Database \<lparr>catalog = damaged_indexed_catalog, other_info = oi,
                               other_count = oc, other_select = os\<rparr>))
           fresh_state))
         = [StSuccess ([CHR 0xE2, CHR 0x9C, CHR 0x85] @ '' Database '' @ [CHR 0x27]
                       @ ''shop.sqlite'' @ [CHR 0x27] @ '' loaded successfully!''),
            StExpander ([CHR 0xF0, CHR 0x9F, CHR 0x93, CHR 0x8A] @ '' customers (3 rows)'')
              [(''id'', ''INTEGER'', 0, 0), (''name'', ''TEXT'', 0, 0),
               (''country'', ''TEXT'', 0, 0)],
            StExpander ([CHR 0xF0, CHR 0x9F, CHR 0x93, CHR 0x8A] @ '' orders (2 rows)'')
              [(''id'', ''INTEGER'', 0, 0), (''customer_id'', ''INTEGER'', 0, 0),
               (''amount'', ''INTEGER'', 0, 0)],
            StInfo ''Currently connected to: **shop.sqlite**'']"
  by (intro allI conjI; code_simp)

text \<open>
  Claim C9, amended. The uploaded file is not a database, or is one that SQLite cannot
  use, or is a database with a valid catalog and a table whose name is a word SQLite
  accepts and which is damaged with no index to count from or is a virtual table without
  its module. Then the exploration raises, the sidebar shows the success line and then
  the line "Error exploring database: " with the message of the exception, no event of
  the run is a table expander (the exploration stops at the first exception), and the
  run goes on to the chat area and ends normally.
\<close>

theorem failed_exploration_is_reported:
  assumes "uploaded_file inp = Some (name, bytes)"
    and "bytes = NotADatabase \<or> (\<exists>x. bytes = Unusable x)
         \<or> (\<exists>db e. bytes = Database db \<and> valid_catalog (catalog db) \<and> e \<in> set (catalog db)
              \<and> obj_type e = TableObj \<and> word (obj_name e) \<and> \<not> refused (obj_name e)
              \<and> (obj_storage e = RootDamaged None \<or> (\<exists>m. obj_storage e = MissingModule m)))"
  shows "\<exists>e. explore_database (files (fst (main w inp st))) (tmp_name inp) = Inl e
           \<and> snd (sidebar inp st) =
               [StSuccess ([CHR 0xE2, CHR 0x9C, CHR 0x85] @ '' Database '' @ [CHR 0x27] @ name
                           @ [CHR 0x27] @ '' loaded successfully!''),
                StError (''Error exploring database: '' @ str_exn e)]
           \<and> prefix (snd (sidebar inp st)) (fst (snd (main w inp st)))
           \<and> (\<forall>label rows. StExpander label rows \<notin> set (fst (snd (main w inp st))))
           \<and> snd (snd (main w inp st)) = None"
proof -
  let ?fs = "(files st)(tmp_name inp := bytes)"
  obtain e where e: "explore_database ?fs (tmp_name inp) = Inl e"
    using explore_database_fails [OF assms(2), of ?fs "tmp_name inp"] by auto
  have st1: "fst (sidebar inp st) =
               \<lparr>session = (session st)\<lparr>db_path := Some (tmp_name inp), db_name := Some name\<rparr>,
                files = ?fs\<rparr>"
    and side: "snd (sidebar inp st) = [StSuccess (loaded_message name), exploring_error e]"
    using assms(1) e by (simp_all add: sidebar_def Let_def)
  have shown: "snd (sidebar inp st) =
               [StSuccess ([CHR 0xE2, CHR 0x9C, CHR 0x85] @ '' Database '' @ [CHR 0x27] @ name
                           @ [CHR 0x27] @ '' loaded successfully!''),
                StError (''Error exploring database: '' @ str_exn e)]"
    by (simp add: side loaded_message_def exploring_error_def check_mark_def)
  have path: "db_path (session (fst (sidebar inp st))) = Some (tmp_name inp)"
    and nm: "db_name (session (fst (sidebar inp st))) = Some name"
    by (simp_all add: st1)
  note run = main_connected [OF path nm, of w]
  have files: "files (fst (main w inp st)) = ?fs"
    by (simp add: run Let_def st1)
  have pre: "prefix (snd (sidebar inp st)) (fst (snd (main w inp st)))"
    by (simp add: run Let_def)
  have "expanders (fst (snd (main w inp st))) = []"
    by (simp add: run Let_def side exploring_error_def expanders_show_history expanders_ask
          split: option.splits)
  then have no_exp: "\<forall>label rows. StExpander label rows \<notin> set (fst (snd (main w inp st)))"
    using no_expanders by blast
  have fin: "snd (snd (main w inp st)) = None"
    by (simp add: run Let_def)
  from e files shown pre no_exp fin show ?thesis by auto
qed

text \<open>
  The amended C9 at the upload of the shop database whose table \<^verbatim>\<open>orders\<close> is damaged
  and has no index.
\<close>

theorem failed_exploration_is_reported_witness:
  "uploaded_file (upload damaged_shop) = Some (''shop.sqlite'', damaged_shop)
   \<and> (\<exists>e. explore_database
             (files (fst (main offline_world (upload damaged_shop) fresh_state))) tmp_path = Inl e
          \<and> snd (sidebar (upload damaged_shop) fresh_state) =
              [StSuccess ([CHR 0xE2, CHR 0x9C, CHR 0x85] @ '' Database '' @ [CHR 0x27]
                          @ ''shop.sqlite'' @ [CHR 0x27] @ '' loaded successfully!''),
               StError (''Error exploring database: '' @ str_exn e)])
   \<and> (\<forall>label rows. StExpander label rows
         \<notin> set (fst (snd (main offline_world (upload damaged_shop) fresh_state))))
   \<and> snd (snd (main offline_world (upload damaged_shop) fresh_state)) = None"
proof -
  let ?e = "orders\<lparr>obj_storage := RootDamaged None\<rparr>"
  let ?db = "\<lparr>catalog = damaged_catalog,
             other_info = (\<lambda>text. Inr []),
             other_count = (\<lambda>text. Inl (no_such_table text)),
             other_select = (\<lambda>text limit. Inl (no_such_table text))\<rparr>"
  have up: "uploaded_file (upload damaged_shop) = Some (''shop.sqlite'', damaged_shop)"
    and tmp: "tmp_name (upload damaged_shop) = tmp_path"
    by (simp_all add: upload_def)
  have "damaged_shop = Database ?db"
    by (simp add: damaged_shop_def plain_database_def)
  moreover have "valid_catalog (catalog ?db)"
    by code_simp
  moreover have "?e \<in> set (catalog ?db)"
    by (simp add: damaged_catalog_def)
  moreover have "obj_type ?e = TableObj" and "word (obj_name ?e)" and "\<not> refused (obj_name ?e)"
    by code_simp+
  moreover have "obj_storage ?e = RootDamaged None"
    by simp
  ultimately have "\<exists>db e. damaged_shop = Database db \<and> valid_catalog (catalog db)
      \<and> e \<in> set (catalog db) \<and> obj_type e = TableObj \<and> word (obj_name e)
      \<and> \<not> refused (obj_name e)
      \<and> (obj_storage e = RootDamaged None \<or> (\<exists>m. obj_storage e = MissingModule m))"
    by blast
  then show ?thesis
    using failed_exploration_is_reported [of "upload damaged_shop" "''shop.sqlite''" damaged_shop offline_world fresh_state]
      up tmp
    by auto
qed

end
